theory Spec2Isabelle
  imports Main
begin

section \<open>Python values\<close>

text \<open>
  A Python \<open>str\<close> is a sequence of Unicode code points, so it is a list of naturals here
  (an Isabelle \<open>char\<close> is a byte and could not hold U+0141). \<open>lit\<close> reads an ASCII
  literal of the source.
\<close>

type_synonym codepoint = nat
type_synonym ustr = "codepoint list"

definition lit :: "string \<Rightarrow> ustr" where
  "lit s = map of_char s"

text \<open>
  The values that reach \<open>utils.py\<close>: what \<open>json.loads\<close> returns and what a caller passes
  as a filter value (a tuple can only come from a caller). Floats are left out.
\<close>

datatype pyval =
    PNone
  | PBool bool
  | PInt int
  | PStr ustr
  | PList "pyval list"
  | PTuple "pyval list"
  | PDict "(ustr \<times> pyval) list"

text \<open>The exceptions the module can let through to its caller.\<close>

datatype error =
    KeyError
  | IndexError
  | TypeError
  | AttributeError
  | UnicodeEncodeError
  | JSONDecodeError
  | RequestException

definition bind_e :: "error + 'a \<Rightarrow> ('a \<Rightarrow> error + 'b) \<Rightarrow> error + 'b" where
  "bind_e m f = (case m of Inl e \<Rightarrow> Inl e | Inr x \<Rightarrow> f x)"

section \<open>The platform\<close>

text \<open>
  What \<open>utils.py\<close> imports and does not define is a parameter of the model:
  \<^item> \<open>BASE_URL\<close>: the constant of \<open>otodom/__init__.py\<close>;
  \<^item> \<open>requests_get_text\<close>: \<open>requests.get(url).text\<close>, or the exception it raises;
  \<^item> \<open>json_loads\<close>: \<open>json.loads\<close>, or the exception it raises;
  \<^item> \<open>str_lower\<close>: \<open>str.lower\<close>, and \<open>unicodedata_nfkd\<close>:
    \<open>unicodedata.normalize('NFKD', _)\<close>, both read from the Unicode Character Database;
  \<^item> \<open>str_isalnum\<close>: \<open>str.isalnum\<close> on one code point (the regular expression's
    \<open>\w\<close> is that, or an underscore);
  \<^item> \<open>str_isprintable\<close>: \<open>str.isprintable\<close> on one code point, which \<open>repr\<close> asks
    of the code points that are not ASCII;
  \<^item> \<open>cache_holds\<close>: whether the cache of the \<open>caching\<close> decorator holds a response
    for a URL when \<open>get_response_for_url\<close> is called (see \<open>caching\<close> below).
\<close>

record platform =
  BASE_URL :: ustr
  requests_get_text :: "ustr \<Rightarrow> error + ustr"
  json_loads :: "ustr \<Rightarrow> error + pyval"
  str_lower :: "ustr \<Rightarrow> ustr"
  unicodedata_nfkd :: "ustr \<Rightarrow> ustr"
  str_isalnum :: "codepoint \<Rightarrow> bool"
  str_isprintable :: "codepoint \<Rightarrow> bool"
  cache_holds :: "ustr \<Rightarrow> bool"

section \<open>String methods\<close>

text \<open>
  \<open>s.replace(old, new)\<close>: the occurrences of \<open>old\<close> from the left, none overlapping.
  An empty \<open>old\<close> matches before every code point and at the end.
\<close>

fun str_replace :: "ustr \<Rightarrow> ustr \<Rightarrow> ustr \<Rightarrow> ustr" where
  "str_replace old new [] = (if old = [] then new else [])"
| "str_replace old new (c # cs) =
     (if old = [] then new @ concat (map (\<lambda>x. x # new) (c # cs))
      else if take (length old) (c # cs) = old
        then new @ str_replace old new (drop (length old) (c # cs))
      else c # str_replace old new cs)"

text \<open>\<open>sep.join(parts)\<close> on a list of strings.\<close>

fun str_join :: "ustr \<Rightarrow> ustr list \<Rightarrow> ustr" where
  "str_join sep [] = []"
| "str_join sep [x] = x"
| "str_join sep (x # y # ys) = x @ sep @ str_join sep (y # ys)"

text \<open>
  \<open>s.split(sep)\<close> for a non-empty \<open>sep\<close> (the source passes \<open>", "\<close> only; Python
  raises ValueError on an empty separator). \<open>cur\<close> is the piece read so far.
\<close>

fun split_from :: "ustr \<Rightarrow> ustr \<Rightarrow> ustr \<Rightarrow> ustr list" where
  "split_from sep cur [] = [cur]"
| "split_from sep cur (c # cs) =
     (if sep \<noteq> [] \<and> take (length sep) (c # cs) = sep
        then cur # split_from sep [] (drop (length sep) (c # cs))
      else split_from sep (cur @ [c]) cs)"

definition str_split :: "ustr \<Rightarrow> ustr \<Rightarrow> ustr list" where
  "str_split sep s = split_from sep [] s"

text \<open>
  \<open>str.isspace\<close> on one code point: the code points CPython lists in
  \<open>_PyUnicode_IsWhitespace\<close>.
\<close>

definition isspace :: "codepoint \<Rightarrow> bool" where
  "isspace c =
     ((0x09 \<le> c \<and> c \<le> 0x0D) \<or> (0x1C \<le> c \<and> c \<le> 0x20) \<or> c = 0x85 \<or> c = 0xA0
      \<or> c = 0x1680 \<or> (0x2000 \<le> c \<and> c \<le> 0x200A) \<or> c = 0x2028 \<or> c = 0x2029
      \<or> c = 0x202F \<or> c = 0x205F \<or> c = 0x3000)"

text \<open>\<open>s.split()\<close>: the maximal runs of code points that are not whitespace.\<close>

fun split_ws_from :: "ustr \<Rightarrow> ustr \<Rightarrow> ustr list" where
  "split_ws_from cur [] = (if cur = [] then [] else [cur])"
| "split_ws_from cur (c # cs) =
     (if isspace c
        then (if cur = [] then split_ws_from [] cs else cur # split_ws_from [] cs)
      else split_ws_from (cur @ [c]) cs)"

definition str_split_ws :: "ustr \<Rightarrow> ustr list" where
  "str_split_ws s = split_ws_from [] s"

text \<open>
  \<open>s.encode('ascii', 'ignore')\<close> drops every code point that is not ASCII and gives one
  byte for each of the others; \<open>decode("utf-8")\<close> of ASCII bytes gives the same code
  points back.
\<close>

definition encode_ascii_ignore :: "ustr \<Rightarrow> nat list" where
  "encode_ascii_ignore s = filter (\<lambda>c. c < 128) s"

definition decode_utf8_of_ascii :: "nat list \<Rightarrow> ustr" where
  "decode_utf8_of_ascii bs = bs"

section \<open>normalize_text\<close>

text \<open>
  \<^verbatim>\<open>return unicodedata.normalize('NFKD', text.lower()).encode('ascii', 'ignore')
            .decode("utf-8").replace(" ", "-")\<close>
\<close>

definition normalize_text :: "platform \<Rightarrow> ustr \<Rightarrow> ustr" where
  "normalize_text E text =
     str_replace (lit '' '') (lit ''-'')
       (decode_utf8_of_ascii (encode_ascii_ignore (unicodedata_nfkd E (str_lower E text))))"

section \<open>A fragment of the Unicode Character Database\<close>

text \<open>
  The rows of \<open>UnicodeData.txt\<close> for ASCII, the letters of the Polish alphabet, NO-BREAK
  SPACE and TRADE MARK SIGN. On strings over these code points \<open>ucd_lower\<close> is
  \<open>str.lower\<close> and \<open>ucd_nfkd\<close> is \<open>unicodedata.normalize('NFKD', _)\<close>. (The
  combining marks U+0301, U+0307 and U+0328 occur in decompositions only: NFKD reorders
  marks that follow each other in its input, which a map over the code points does not.)
  The theorems that hold for every string are stated for every platform and do not use the
  fragment.

  U+0142 LATIN SMALL LETTER L WITH STROKE and U+0141, its capital, have no decomposition
  in the database, so they have no row in \<open>nfkd_rows\<close>. U+2122 TRADE MARK SIGN has no
  lowercase mapping and the compatibility decomposition \<open><super> 0054 004D\<close>.
\<close>

definition lower_rows :: "(codepoint \<times> codepoint) list" where
  "lower_rows =
     [(0xD3, 0xF3), (0x104, 0x105), (0x106, 0x107), (0x118, 0x119), (0x141, 0x142),
      (0x143, 0x144), (0x15A, 0x15B), (0x179, 0x17A), (0x17B, 0x17C)]"

definition nfkd_rows :: "(codepoint \<times> ustr) list" where
  "nfkd_rows =
     [(0xA0, [0x20]),
      (0xD3, [0x4F, 0x301]), (0xF3, [0x6F, 0x301]),
      (0x104, [0x41, 0x328]), (0x105, [0x61, 0x328]),
      (0x106, [0x43, 0x301]), (0x107, [0x63, 0x301]),
      (0x118, [0x45, 0x328]), (0x119, [0x65, 0x328]),
      (0x143, [0x4E, 0x301]), (0x144, [0x6E, 0x301]),
      (0x15A, [0x53, 0x301]), (0x15B, [0x73, 0x301]),
      (0x179, [0x5A, 0x301]), (0x17A, [0x7A, 0x301]),
      (0x17B, [0x5A, 0x307]), (0x17C, [0x7A, 0x307]),
      (0x2122, [0x54, 0x4D])]"

definition ucd_lower_cp :: "codepoint \<Rightarrow> codepoint" where
  "ucd_lower_cp c =
     (if 0x41 \<le> c \<and> c \<le> 0x5A then c + 0x20
      else case map_of lower_rows c of Some l \<Rightarrow> l | None \<Rightarrow> c)"

definition ucd_lower :: "ustr \<Rightarrow> ustr" where
  "ucd_lower s = map ucd_lower_cp s"

definition ucd_nfkd_cp :: "codepoint \<Rightarrow> ustr" where
  "ucd_nfkd_cp c = (case map_of nfkd_rows c of Some d \<Rightarrow> d | None \<Rightarrow> [c])"

definition ucd_nfkd :: "ustr \<Rightarrow> ustr" where
  "ucd_nfkd s = concat (map ucd_nfkd_cp s)"

definition ucd_isprintable :: "codepoint \<Rightarrow> bool" where
  "ucd_isprintable c = (c \<noteq> 0xA0)"

definition ascii_isalnum :: "codepoint \<Rightarrow> bool" where
  "ascii_isalnum c =
     ((0x30 \<le> c \<and> c \<le> 0x39) \<or> (0x41 \<le> c \<and> c \<le> 0x5A) \<or> (0x61 \<le> c \<and> c \<le> 0x7A))"

text \<open>
  A platform for the concrete runs below: the fragment above, the base URL of the site,
  a cache that holds nothing, and a server \<open>srv\<close> and a JSON decoder \<open>dec\<close> chosen by
  each run. Of the code points of the fragment that are not ASCII only NO-BREAK SPACE is
  not printable, and the runs of \<open>get_csrf_token\<close> are ASCII, where \<open>ascii_isalnum\<close>
  is \<open>str.isalnum\<close>. \<open>offline\<close> is the platform whose server cannot be reached.
\<close>

definition run_platform ::
  "(ustr \<Rightarrow> error + ustr) \<Rightarrow> (ustr \<Rightarrow> error + pyval) \<Rightarrow> platform" where
  "run_platform srv dec =
     \<lparr> BASE_URL = lit ''https://www.otodom.pl'',
       requests_get_text = srv,
       json_loads = dec,
       str_lower = ucd_lower,
       unicodedata_nfkd = ucd_nfkd,
       str_isalnum = ascii_isalnum,
       str_isprintable = ucd_isprintable,
       cache_holds = (\<lambda>url. False) \<rparr>"

definition offline :: platform where
  "offline = run_platform (\<lambda>url. Inl RequestException) (\<lambda>body. Inl JSONDecodeError)"

text \<open>
  The city name of the specification's example, "Lodz Wola" written with its Polish letters,
  as code points: U+0141 (L with stroke), U+00F3 (o with acute), d, U+017A (z with acute),
  a space, W, o, l, a.
\<close>

definition lodz_wola :: ustr where
  "lodz_wola = [0x141, 0xF3, 0x64, 0x17A, 0x20, 0x57, 0x6F, 0x6C, 0x61]"

section \<open>Formatting and URL escaping\<close>

text \<open>\<open>str(n)\<close> of an integer: its decimal digits, with a minus sign when negative.\<close>

function digits :: "nat \<Rightarrow> ustr" where
  "digits n = (if n < 10 then [0x30 + n] else digits (n div 10) @ [0x30 + n mod 10])"
  by pat_completeness auto
termination
  by (relation "measure id") auto

declare digits.simps [simp del]

definition str_of_int :: "int \<Rightarrow> ustr" where
  "str_of_int i = (if i < 0 then 0x2D # digits (nat (- i)) else digits (nat i))"

text \<open>
  \<open>repr(s)\<close> of a string: in single quotes, or in double quotes when it holds a single
  quote and no double quote; the quote character and the backslash (U+005C) are escaped
  with a backslash, tab, line feed and carriage return are written \<open>\t\<close>, \<open>\n\<close>,
  \<open>\r\<close>, the other ASCII control characters and the code points that are not printable
  are written \<open>\xhh\<close>, \<open>\uhhhh\<close> or \<open>\Uhhhhhhhh\<close> in lowercase hexadecimal.
\<close>

definition hex_lower :: "nat \<Rightarrow> nat" where
  "hex_lower n = (if n < 10 then 0x30 + n else 0x57 + n)"

definition hex2 :: "nat \<Rightarrow> ustr" where
  "hex2 n = [hex_lower (n div 16 mod 16), hex_lower (n mod 16)]"

definition hex4 :: "nat \<Rightarrow> ustr" where
  "hex4 n = hex2 (n div 0x100) @ hex2 (n mod 0x100)"

definition hex8 :: "nat \<Rightarrow> ustr" where
  "hex8 n = hex4 (n div 0x10000) @ hex4 (n mod 0x10000)"

definition repr_char :: "platform \<Rightarrow> codepoint \<Rightarrow> codepoint \<Rightarrow> ustr" where
  "repr_char E q c =
     (if c = q \<or> c = 0x5C then [0x5C, c]
      else if c = 0x09 then [0x5C, 0x74]
      else if c = 0x0A then [0x5C, 0x6E]
      else if c = 0x0D then [0x5C, 0x72]
      else if c < 0x20 \<or> c = 0x7F then [0x5C, 0x78] @ hex2 c
      else if c < 0x7F then [c]
      else if str_isprintable E c then [c]
      else if c \<le> 0xFF then [0x5C, 0x78] @ hex2 c
      else if c \<le> 0xFFFF then [0x5C, 0x75] @ hex4 c
      else [0x5C, 0x55] @ hex8 c)"

definition str_repr :: "platform \<Rightarrow> ustr \<Rightarrow> ustr" where
  "str_repr E s =
     (let q = (if 0x27 \<in> set s \<and> 0x22 \<notin> set s then 0x22 else 0x27)
      in q # concat (map (repr_char E q) s) @ [q])"

text \<open>
  \<open>repr(v)\<close>: the items of a list, a tuple or a dict are written with \<open>repr\<close> and
  joined with a comma and a space; a tuple of one item ends in a comma.
\<close>

fun py_repr :: "platform \<Rightarrow> pyval \<Rightarrow> ustr" where
  "py_repr E PNone = lit ''None''"
| "py_repr E (PBool b) = (if b then lit ''True'' else lit ''False'')"
| "py_repr E (PInt i) = str_of_int i"
| "py_repr E (PStr s) = str_repr E s"
| "py_repr E (PList xs) = lit ''['' @ str_join (lit '', '') (map (py_repr E) xs) @ lit '']''"
| "py_repr E (PTuple []) = lit ''()''"
| "py_repr E (PTuple [x]) = lit ''('' @ py_repr E x @ lit '',)''"
| "py_repr E (PTuple (x # y # ys)) =
     lit ''('' @ str_join (lit '', '') (map (py_repr E) (x # y # ys)) @ lit '')''"
| "py_repr E (PDict d) =
     lit ''{'' @ str_join (lit '', '')
                  (map (\<lambda>kv. str_repr E (fst kv) @ lit '': '' @ py_repr E (snd kv)) d)
     @ lit ''}''"

text \<open>
  What \<open>"{}".format(v)\<close> puts in place of the braces: \<open>str(v)\<close>, which is \<open>repr(v)\<close>
  for a list, a tuple and a dict.
\<close>

fun py_str :: "platform \<Rightarrow> pyval \<Rightarrow> ustr" where
  "py_str E PNone = lit ''None''"
| "py_str E (PBool b) = (if b then lit ''True'' else lit ''False'')"
| "py_str E (PInt i) = str_of_int i"
| "py_str E (PStr s) = s"
| "py_str E (PList xs) = py_repr E (PList xs)"
| "py_str E (PTuple xs) = py_repr E (PTuple xs)"
| "py_str E (PDict d) = py_repr E (PDict d)"

text \<open>
  \<open>urllib.parse.quote(s)\<close> with its default \<open>safe='/'\<close>: the UTF-8 bytes of \<open>s\<close>, each
  kept when it is an ASCII letter, a digit or one of \<open>_.-~/\<close> and written \<open>%XX\<close>
  (uppercase hexadecimal) otherwise. A surrogate code point has no UTF-8 encoding.
\<close>

definition utf8_encode_cp :: "codepoint \<Rightarrow> error + nat list" where
  "utf8_encode_cp c =
     (if c < 0x80 then Inr [c]
      else if c < 0x800 then Inr [0xC0 + c div 0x40, 0x80 + c mod 0x40]
      else if 0xD800 \<le> c \<and> c \<le> 0xDFFF then Inl UnicodeEncodeError
      else if c < 0x10000
        then Inr [0xE0 + c div 0x1000, 0x80 + (c div 0x40) mod 0x40, 0x80 + c mod 0x40]
      else Inr [0xF0 + c div 0x40000, 0x80 + (c div 0x1000) mod 0x40,
                0x80 + (c div 0x40) mod 0x40, 0x80 + c mod 0x40])"

fun utf8_encode :: "ustr \<Rightarrow> error + nat list" where
  "utf8_encode [] = Inr []"
| "utf8_encode (c # cs) =
     bind_e (utf8_encode_cp c) (\<lambda>bs. bind_e (utf8_encode cs) (\<lambda>rest. Inr (bs @ rest)))"

definition always_safe :: "nat \<Rightarrow> bool" where
  "always_safe b =
     ((0x30 \<le> b \<and> b \<le> 0x39) \<or> (0x41 \<le> b \<and> b \<le> 0x5A) \<or> (0x61 \<le> b \<and> b \<le> 0x7A)
      \<or> b = 0x5F \<or> b = 0x2E \<or> b = 0x2D \<or> b = 0x7E)"

definition hex_digit :: "nat \<Rightarrow> nat" where
  "hex_digit n = (if n < 10 then 0x30 + n else 0x37 + n)"

definition quote_byte :: "nat \<Rightarrow> ustr" where
  "quote_byte b =
     (if always_safe b \<or> b = 0x2F then [b]
      else [0x25, hex_digit (b div 16), hex_digit (b mod 16)])"

definition quote :: "ustr \<Rightarrow> error + ustr" where
  "quote s = bind_e (utf8_encode s) (\<lambda>bs. Inr (concat (map quote_byte bs)))"

section \<open>Dictionaries\<close>

text \<open>
  A Python \<open>dict\<close> keeps its keys in insertion order, and \<open>get_url\<close> iterates over one,
  so a dictionary is an association list with distinct keys. Assigning to a key that is
  there keeps its place; a new key goes to the end.
\<close>

type_synonym dict = "(ustr \<times> pyval) list"

definition dict_contains :: "dict \<Rightarrow> ustr \<Rightarrow> bool" where
  "dict_contains d k = (map_of d k \<noteq> None)"

definition dict_get :: "dict \<Rightarrow> ustr \<Rightarrow> pyval" where
  "dict_get d k = (case map_of d k of Some v \<Rightarrow> v | None \<Rightarrow> PNone)"

definition dict_item :: "dict \<Rightarrow> ustr \<Rightarrow> error + pyval" where
  "dict_item d k = (case map_of d k of Some v \<Rightarrow> Inr v | None \<Rightarrow> Inl KeyError)"

fun dict_set :: "dict \<Rightarrow> ustr \<Rightarrow> pyval \<Rightarrow> dict" where
  "dict_set [] k v = [(k, v)]"
| "dict_set ((k', v') # d) k v =
     (if k' = k then (k, v) # d else (k', v') # dict_set d k v)"

section \<open>Region resolution\<close>

definition REGION_DATA_KEYS :: "ustr list" where
  "REGION_DATA_KEYS =
     [lit ''city'', lit ''voivodeship'', lit ''[district_id]'', lit ''[street_id]'']"

text \<open>
  \<^verbatim>\<open>region_dict = {region_data: filters.get(region_data)
                 for region_data in REGION_DATA_KEYS if region_data in filters}\<close>
\<close>

definition get_region_from_filters :: "dict \<Rightarrow> dict" where
  "get_region_from_filters filters =
     [(region_data, dict_get filters region_data).
        region_data \<leftarrow> REGION_DATA_KEYS, dict_contains filters region_data]"

text \<open>
  Modelled from the spec: the decorator \<open>caching\<close> of \<open>scrapper_helpers.utils\<close>, which
  is not part of the repository. Section 4.5 gives its contract: successive calls with an
  identical URL within the cache's lifetime return a previously stored response; an
  idempotent GET, content-addressed by URL, with the storage and its lifetime owned
  externally. So when the cache holds a response for the URL the decorated function is not
  run, nothing is requested, and the response returned is the one the function gives for
  that URL; otherwise the function runs. A function's result is paired with the list of
  the URLs it requested with \<open>requests.get\<close>, in order.
\<close>

definition caching ::
  "platform \<Rightarrow> (ustr \<Rightarrow> (error + ustr) \<times> ustr list) \<Rightarrow> ustr \<Rightarrow> (error + ustr) \<times> ustr list"
  where
  "caching E f url = (if cache_holds E url then (fst (f url), []) else f url)"

text \<open>
  \<^verbatim>\<open>@caching
  def get_response_for_url(url):
      return requests.get(url)\<close>
  of which the module reads \<open>.text\<close> only. The request is the module's one effect.
\<close>

definition get_response_for_url :: "platform \<Rightarrow> ustr \<Rightarrow> (error + ustr) \<times> ustr list" where
  "get_response_for_url E = caching E (\<lambda>url. (requests_get_text E url, [url]))"

text \<open>\<open>v[0]\<close> and \<open>v[key]\<close> for a string key, on a value that \<open>json.loads\<close> returned.\<close>

fun subscript_0 :: "pyval \<Rightarrow> error + pyval" where
  "subscript_0 (PList []) = Inl IndexError"
| "subscript_0 (PList (x # xs)) = Inr x"
| "subscript_0 (PTuple []) = Inl IndexError"
| "subscript_0 (PTuple (x # xs)) = Inr x"
| "subscript_0 (PStr []) = Inl IndexError"
| "subscript_0 (PStr (c # cs)) = Inr (PStr [c])"
| "subscript_0 (PDict d) = Inl KeyError"
| "subscript_0 v = Inl TypeError"

fun subscript_key :: "pyval \<Rightarrow> ustr \<Rightarrow> error + pyval" where
  "subscript_key (PDict d) k = dict_item d k"
| "subscript_key v k = Inl TypeError"

text \<open>
  \<open>response["text"].replace("<strong>", "").replace("</strong>", "").split(", ")\<close>:
  only a string has \<open>replace\<close>.
\<close>

fun text_parts :: "pyval \<Rightarrow> error + ustr list" where
  "text_parts (PStr s) =
     Inr (str_split (lit '', '')
            (str_replace (lit ''</strong>'') [] (str_replace (lit ''<strong>'') [] s)))"
| "text_parts v = Inl AttributeError"

definition list_item :: "'a list \<Rightarrow> nat \<Rightarrow> error + 'a" where
  "list_item xs i = (if i < length xs then Inr (xs ! i) else Inl IndexError)"

text \<open>
  \<open>"{0}{1}{2}".format(normalize_text(text[i]), "_", response["city_id"])\<close>: the arguments
  are evaluated from the left.
\<close>

definition city_entry :: "platform \<Rightarrow> pyval \<Rightarrow> ustr list \<Rightarrow> nat \<Rightarrow> error + pyval" where
  "city_entry E response text i =
     bind_e (list_item text i) (\<lambda>name.
     bind_e (subscript_key response (lit ''city_id'')) (\<lambda>city_id.
       Inr (PStr (normalize_text E name @ lit ''_'' @ py_str E city_id))))"

text \<open>Lines 54 to 70 of \<open>get_region_from_autosuggest\<close>, on the first element of the reply.\<close>

definition region_of_response :: "platform \<Rightarrow> pyval \<Rightarrow> error + dict" where
  "region_of_response E response =
     bind_e (subscript_key response (lit ''level'')) (\<lambda>region_type.
     bind_e (bind_e (subscript_key response (lit ''text'')) text_parts) (\<lambda>text.
       if region_type = PStr (lit ''CITY'') then
         bind_e (city_entry E response text 0) (\<lambda>city.
           Inr [(lit ''city'', city)])
       else if region_type = PStr (lit ''DISTRICT'') then
         bind_e (city_entry E response text 1) (\<lambda>city.
         bind_e (subscript_key response (lit ''district_id'')) (\<lambda>district_id.
           Inr [(lit ''city'', city), (lit ''[district_id]'', district_id)]))
       else if region_type = PStr (lit ''REGION'') then
         bind_e (list_item text 0) (\<lambda>name.
           Inr [(lit ''voivodeship'', PStr (normalize_text E name))])
       else if region_type = PStr (lit ''STREET'') then
         bind_e (city_entry E response text 0) (\<lambda>city.
         bind_e (subscript_key response (lit ''street_id'')) (\<lambda>street_id.
           Inr [(lit ''city'', city), (lit ''[street_id]'', street_id)]))
       else Inr []))"

definition autosuggest_url :: "ustr \<Rightarrow> ustr" where
  "autosuggest_url region_part =
     lit ''https://www.otodom.pl/ajax/geo6/autosuggest/?data='' @ region_part"

definition get_region_from_autosuggest ::
  "platform \<Rightarrow> ustr \<Rightarrow> (error + dict) \<times> ustr list" where
  "get_region_from_autosuggest E region_part =
     (if region_part = [] then (Inr [], [])
      else
        let url = autosuggest_url region_part;
            (text, requests) = get_response_for_url E url
        in (bind_e text (\<lambda>body.
            bind_e (json_loads E body) (\<lambda>reply.
            bind_e (subscript_0 reply) (\<lambda>response.
              region_of_response E response))),
            requests))"

section \<open>get_url\<close>

fun map_e :: "('a \<Rightarrow> error + 'b) \<Rightarrow> 'a list \<Rightarrow> error + 'b list" where
  "map_e f [] = Inr []"
| "map_e f (x # xs) = bind_e (f x) (\<lambda>y. bind_e (map_e f xs) (\<lambda>ys. Inr (y # ys)))"

text \<open>
  Where the source needs a string: an item of \<open>sep.join(items)\<close> and the right operand of
  \<open>str + v\<close> (TypeError otherwise), and the receiver of \<open>v.split()\<close> (AttributeError
  otherwise).
\<close>

fun as_str :: "pyval \<Rightarrow> error + ustr" where
  "as_str (PStr s) = Inr s"
| "as_str v = Inl TypeError"

fun str_add :: "ustr \<Rightarrow> pyval \<Rightarrow> error + ustr" where
  "str_add s (PStr t) = Inr (s @ t)"
| "str_add s v = Inl TypeError"

fun split_words :: "pyval \<Rightarrow> error + ustr list" where
  "split_words (PStr s) = Inr (str_split_ws s)"
| "split_words v = Inl AttributeError"

text \<open>\<open>page = "page={0}".format(page) if page is not None else ""\<close>\<close>

definition page_fragment :: "platform \<Rightarrow> pyval \<Rightarrow> ustr" where
  "page_fragment E page = (if page \<noteq> PNone then lit ''page='' @ py_str E page else [])"

text \<open>
  The body of the loop over \<open>filters.items()\<close>, for one entry:
  \<^verbatim>\<open>if isinstance(value, list):
      for item in value:
          filter_list.append("search{}={}".format(quote(key), item))
  else:
      filter_list.append("search{}={}".format(quote(key), value))\<close>
\<close>

definition search_fragment :: "platform \<Rightarrow> ustr \<Rightarrow> pyval \<Rightarrow> error + ustr" where
  "search_fragment E key item =
     bind_e (quote key) (\<lambda>q. Inr (lit ''search'' @ q @ lit ''='' @ py_str E item))"

fun entry_fragments :: "platform \<Rightarrow> ustr \<times> pyval \<Rightarrow> error + ustr list" where
  "entry_fragments E (key, PList items) = map_e (search_fragment E key) items"
| "entry_fragments E (key, v) = bind_e (search_fragment E key v) (\<lambda>f. Inr [f])"

fun filter_list :: "platform \<Rightarrow> dict \<Rightarrow> error + ustr list" where
  "filter_list E [] = Inr []"
| "filter_list E (entry # entries) =
     bind_e (entry_fragments E entry) (\<lambda>fs.
     bind_e (filter_list E entries) (\<lambda>gs. Inr (fs @ gs)))"

text \<open>
  The fragments of one entry in the words of the specification (4.4, step 6), with a list
  for its sequence: one fragment for each element of a list, one fragment for any other
  value. \<open>q\<close> is the URL-escaped key.
\<close>

definition expected_fragments :: "platform \<Rightarrow> ustr \<Rightarrow> pyval \<Rightarrow> ustr list" where
  "expected_fragments E q v =
     (case v of
        PList items \<Rightarrow> map (\<lambda>item. lit ''search'' @ q @ lit ''='' @ py_str E item) items
      | _ \<Rightarrow> [lit ''search'' @ q @ lit ''='' @ py_str E v])"

text \<open>
  Lines 110 to 117 of \<open>get_url\<close>: the location segment, and the district and street
  identifiers of the resolved region written into the filters.
\<close>

definition city_or_voivodeship :: "dict \<Rightarrow> pyval" where
  "city_or_voivodeship region_data =
     (if dict_contains region_data (lit ''city'')
        then dict_get region_data (lit ''city'')
      else if dict_contains region_data (lit ''voivodeship'')
        then dict_get region_data (lit ''voivodeship'')
      else PStr [])"

definition promote_ids :: "dict \<Rightarrow> dict \<Rightarrow> dict" where
  "promote_ids filters region_data =
     (let filters1 =
            (if dict_contains region_data (lit ''[district_id]'')
               then dict_set filters (lit ''[district_id]'')
                      (dict_get region_data (lit ''[district_id]''))
             else filters)
      in if dict_contains region_data (lit ''[street_id]'')
           then dict_set filters1 (lit ''[street_id]'')
                  (dict_get region_data (lit ''[street_id]''))
         else filters1)"

text \<open>
  Lines 119 to 128: the base, the categories and the location joined with \<open>/\<close>, then
  the building type and the description fragment when the filters hold them.
\<close>

definition url_path :: "platform \<Rightarrow> ustr \<Rightarrow> ustr \<Rightarrow> dict \<Rightarrow> pyval \<Rightarrow> error + ustr" where
  "url_path E main_category detail_category filters location =
     bind_e (map_e as_str [PStr (BASE_URL E), PStr main_category, PStr detail_category,
                           location]) (\<lambda>parts.
     bind_e (if dict_contains filters (lit ''building_type'')
               then str_add (str_join (lit ''/'') parts @ lit ''/'')
                      (dict_get filters (lit ''building_type''))
             else Inr (str_join (lit ''/'') parts)) (\<lambda>url.
       if dict_contains filters (lit ''description_fragment'')
         then bind_e (split_words (dict_get filters (lit ''description_fragment'')))
                (\<lambda>ws. Inr (url @ lit ''/q-'' @ str_join (lit ''-'') ws))
       else Inr url))"

text \<open>
  Lines 110 to 141 of \<open>get_url\<close>: from the resolved region to the URL. \<open>page\<close> is the
  page fragment already formatted. The loop of lines 132 to 137 runs over every entry of
  the filters: no entry has been removed from them.
\<close>

definition url_for_region ::
  "platform \<Rightarrow> ustr \<Rightarrow> ustr \<Rightarrow> ustr \<Rightarrow> ustr \<Rightarrow> dict \<Rightarrow> dict \<Rightarrow> error + ustr" where
  "url_for_region E main_category detail_category ads_per_page page filters region_data =
     (let filters2 = promote_ids filters region_data
      in
        bind_e (url_path E main_category detail_category filters2
                  (city_or_voivodeship region_data)) (\<lambda>url.
        bind_e (filter_list E filters2) (\<lambda>fragments.
          Inr (url @ str_join (lit ''&'') (ads_per_page # page # fragments)))))"

text \<open>
  \<open>get_url(main_category, detail_category, region, ads_per_page, page, **filters)\<close>:
  the URL or the exception, and the URLs requested on the way.
\<close>

definition get_url ::
  "platform \<Rightarrow> ustr \<Rightarrow> ustr \<Rightarrow> ustr \<Rightarrow> ustr \<Rightarrow> pyval \<Rightarrow> dict \<Rightarrow> (error + ustr) \<times> ustr list"
  where
  "get_url E main_category detail_category region ads_per_page page filters =
     (let (region_data, requests) =
            (if list_ex (dict_contains filters) REGION_DATA_KEYS
               then (Inr (get_region_from_filters filters), [])
             else get_region_from_autosuggest E region)
      in (bind_e region_data
            (url_for_region E main_category detail_category ads_per_page
               (page_fragment E page) filters),
          requests))"

section \<open>get_csrf_token\<close>

text \<open>
  The regular expressions the pattern of \<open>get_csrf_token\<close> is built from. \<open>Lit\<close> is a
  run of literal code points, \<open>AnyChar\<close> is \<open>.\<close> (any code point but a line feed),
  \<open>Space\<close> is \<open>\s\<close>, \<open>Word\<close> is \<open>\w\<close>, \<open>Star\<close> and \<open>Plus\<close> are the greedy
  \<open>*\<close> and \<open>+\<close>, \<open>Group\<close> is a group without a name and \<open>Named\<close> is
  \<open>(?P<name>...)\<close>.
\<close>

datatype regex =
    Lit ustr
  | AnyChar
  | Space
  | Word
  | Seq regex regex
  | Alt regex regex
  | Star regex
  | Plus regex
  | Group regex
  | Named string regex

fun weight :: "regex \<Rightarrow> nat" where
  "weight (Seq a b) = Suc (weight a + weight b)"
| "weight (Alt a b) = Suc (weight a + weight b)"
| "weight (Star r) = Suc (weight r)"
| "weight (Plus r) = Suc (Suc (weight r))"
| "weight (Group r) = Suc (weight r)"
| "weight (Named n r) = Suc (weight r)"
| "weight r = 0"

text \<open>
  A backtracking matcher explores the ways to match in a fixed order and takes the first
  that succeeds. \<open>paths w r (s, g)\<close> lists, in that order, every way to match \<open>r\<close> at the
  start of \<open>s\<close>: what is left of \<open>s\<close>, and the named groups \<open>g\<close> with those set on the
  way. A greedy repetition tries one more round before it stops, and a round that consumes
  nothing ends it. \<open>w\<close> is \<open>str.isalnum\<close>.
\<close>

definition one_char :: "(codepoint \<Rightarrow> bool) \<Rightarrow> ustr \<times> (string \<times> ustr) list
    \<Rightarrow> (ustr \<times> (string \<times> ustr) list) list" where
  "one_char p st =
     (case fst st of [] \<Rightarrow> [] | c # cs \<Rightarrow> if p c then [(cs, snd st)] else [])"

definition set_group :: "string \<Rightarrow> ustr \<Rightarrow> ustr \<times> (string \<times> ustr) list
    \<Rightarrow> ustr \<times> (string \<times> ustr) list" where
  "set_group n s st =
     (fst st, (n, take (length s - length (fst st)) s) # filter (\<lambda>e. fst e \<noteq> n) (snd st))"

function paths :: "(codepoint \<Rightarrow> bool) \<Rightarrow> regex \<Rightarrow> ustr \<times> (string \<times> ustr) list
    \<Rightarrow> (ustr \<times> (string \<times> ustr) list) list" where
  "paths w (Lit t) st =
     (if take (length t) (fst st) = t then [(drop (length t) (fst st), snd st)] else [])"
| "paths w AnyChar st = one_char (\<lambda>c. c \<noteq> 0x0A) st"
| "paths w Space st = one_char isspace st"
| "paths w Word st = one_char (\<lambda>c. w c \<or> c = 0x5F) st"
| "paths w (Seq a b) st = concat (map (paths w b) (paths w a st))"
| "paths w (Alt a b) st = paths w a st @ paths w b st"
| "paths w (Star r) st =
     concat (map (\<lambda>st'. if length (fst st') < length (fst st) then paths w (Star r) st' else [])
               (paths w r st))
     @ [st]"
| "paths w (Plus r) st = concat (map (paths w (Star r)) (paths w r st))"
| "paths w (Group r) st = paths w r st"
| "paths w (Named n r) st = map (set_group n (fst st)) (paths w r st)"
  by pat_completeness auto
termination
  by (relation "measures [\<lambda>(w, r, st). weight r, \<lambda>(w, r, st). length (fst st)]") auto

declare paths.simps [simp del]

text \<open>
  \<open>re.match(pattern, s)\<close>: the first way to match at the start of \<open>s\<close>, as the
  \<open>groupdict()\<close> of the match object, or \<open>None\<close>.
\<close>

definition re_match :: "(codepoint \<Rightarrow> bool) \<Rightarrow> regex \<Rightarrow> ustr \<Rightarrow> (string \<times> ustr) list option"
  where
  "re_match w r s = (case paths w r (s, []) of [] \<Rightarrow> None | st # rest \<Rightarrow> Some (snd st))"

text \<open>
  \<^verbatim>\<open>r".*csrfToken\s+=(\\|\s)+'(?P<csrf_token>\w+).*"\<close>
  (U+005C is the backslash, U+0027 the single quote).
\<close>

definition csrf_pattern :: regex where
  "csrf_pattern =
     Seq (Star AnyChar)
    (Seq (Lit (lit ''csrfToken''))
    (Seq (Plus Space)
    (Seq (Lit (lit ''=''))
    (Seq (Plus (Group (Alt (Lit [0x5C]) Space)))
    (Seq (Lit [0x27])
    (Seq (Named ''csrf_token'' (Plus Word))
         (Star AnyChar)))))))"

text \<open>
  \<^verbatim>\<open>found = re.match(..., str(html_content))
  csrf_token = found.groupdict().get('csrf_token')\<close>
  on a \<open>str\<close>, which \<open>str()\<close> returns as it is. \<open>None\<close> has no \<open>groupdict\<close>.
\<close>

definition get_csrf_token :: "platform \<Rightarrow> ustr \<Rightarrow> error + pyval" where
  "get_csrf_token E html_content =
     (case re_match (str_isalnum E) csrf_pattern html_content of
        None \<Rightarrow> Inl AttributeError
      | Some groupdict \<Rightarrow>
          Inr (case map_of groupdict ''csrf_token'' of Some t \<Rightarrow> PStr t | None \<Rightarrow> PNone))"

section \<open>Replies for the concrete runs\<close>

text \<open>
  \<open>serving reply\<close> is a platform whose server answers every request and whose decoder
  reads the answer as \<open>reply\<close>. The replies: a district without its \<open>district_id\<close>,
  a voivodeship without a \<open>city_id\<close>, and an element whose \<open>level\<close> is none of the
  four that \<open>get_region_from_autosuggest\<close> tests for.
\<close>

definition serving :: "pyval \<Rightarrow> platform" where
  "serving reply = run_platform (\<lambda>url. Inr (lit ''(body)'')) (\<lambda>body. Inr reply)"

definition district_reply :: pyval where
  "district_reply =
     PList [PDict [(lit ''level'', PStr (lit ''DISTRICT'')),
                   (lit ''text'', PStr (lit ''<strong>Wol</strong>a, Warszawa'')),
                   (lit ''city_id'', PInt 26)]]"

definition region_reply :: pyval where
  "region_reply =
     PList [PDict [(lit ''level'', PStr (lit ''REGION'')),
                   (lit ''text'', PStr (lit ''<strong>Mazo</strong>wieckie''))]]"

definition country_reply :: pyval where
  "country_reply =
     PList [PDict [(lit ''level'', PStr (lit ''COUNTRY'')),
                   (lit ''text'', PStr (lit ''<strong>Pol</strong>ska'')),
                   (lit ''city_id'', PInt 1)]]"

text \<open>\<open>csrfToken = 'XYZ123'\<close>, the body text of the specification's example.\<close>

definition token_body :: ustr where
  "token_body = lit ''csrfToken = '' @ [0x27] @ lit ''XYZ123'' @ [0x27]"

section \<open>normalize_text: what holds for every input\<close>

lemma str_replace_char:
  "str_replace [a] [b] s = map (\<lambda>c. if c = a then b else c) s"
  by (induction s) auto

lemma normalize_text_ascii:
  "list_all (\<lambda>c. c < 128) (normalize_text E s)"
  by (auto simp: normalize_text_def lit_def str_replace_char encode_ascii_ignore_def
      decode_utf8_of_ascii_def list_all_iff)

lemma normalize_text_no_space:
  "0x20 \<notin> set (normalize_text E s)"
  by (auto simp: normalize_text_def lit_def str_replace_char)

lemma normalize_text_empty:
  "normalize_text offline [] = []"
  by (simp add: normalize_text_def offline_def run_platform_def ucd_lower_def ucd_nfkd_def
      encode_ascii_ignore_def decode_utf8_of_ascii_def lit_def)

section \<open>Claims on normalize_text\<close>

text \<open>
  C1. The claim: \<open>normalize_text\<close> of \<open>lodz_wola\<close> is \<open>"lodz-wola"\<close>, and every
  result is lowercase, ASCII only, without diacritics and with a hyphen for every space.
  The code at that input: lowering gives U+0142 U+00F3 d U+017A; NFKD decomposes U+00F3
  and U+017A into a letter and U+0301 and leaves U+0142 as it is; the ASCII encoding then
  drops U+0142 with the two accents, so the result is \<open>"odz-wola"\<close>, without the first
  letter.
\<close>

theorem normalize_text_lodz_wola:
  "normalize_text offline lodz_wola = lit ''odz-wola''
   \<and> normalize_text offline lodz_wola \<noteq> lit ''lodz-wola''"
  by (simp add: normalize_text_def offline_def run_platform_def lodz_wola_def lit_def
      ucd_lower_def ucd_lower_cp_def lower_rows_def ucd_nfkd_def ucd_nfkd_cp_def
      nfkd_rows_def encode_ascii_ignore_def decode_utf8_of_ascii_def)

text \<open>
  C10. The claim: \<open>normalize_text (normalize_text s) = normalize_text s\<close> for every
  \<open>s\<close>. The code at the one code point U+2122 TRADE MARK SIGN: lowering leaves it, NFKD
  gives \<open>"TM"\<close>, which is the first result; the second application lowers it to
  \<open>"tm"\<close>.
\<close>

theorem normalize_text_twice_trade_mark:
  "normalize_text offline [0x2122] = lit ''TM''
   \<and> normalize_text offline (normalize_text offline [0x2122]) = lit ''tm''"
  by (simp add: normalize_text_def offline_def run_platform_def lit_def
      ucd_lower_def ucd_lower_cp_def lower_rows_def ucd_nfkd_def ucd_nfkd_cp_def
      nfkd_rows_def encode_ascii_ignore_def decode_utf8_of_ascii_def)

section \<open>The error monad\<close>

lemma bind_e_simps [simp]:
  "bind_e (Inl e) f = Inl e" "bind_e (Inr x) f = f x"
  by (simp_all add: bind_e_def)

lemma isl_bind_e: "isl m \<Longrightarrow> isl (bind_e m f)"
  by (cases m) simp_all

section \<open>get_region_from_filters\<close>

text \<open>
  C3. \<open>get_region_from_filters\<close> returns the restriction of the filters to the four
  region keys: looking a key up in the result gives the filters' value when the key is
  one of the four and nothing otherwise, and no key is there twice. On
  \<open>{"city": "warszawa_1", "unused": "x"}\<close> the result is \<open>{"city": "warszawa_1"}\<close>.
\<close>

theorem get_region_from_filters_restricts:
  "map_of (get_region_from_filters filters) k
     = (if k \<in> set REGION_DATA_KEYS then map_of filters k else None)
   \<and> distinct (map fst (get_region_from_filters filters))
   \<and> get_region_from_filters
         [(lit ''city'', PStr (lit ''warszawa_1'')), (lit ''unused'', PStr (lit ''x''))]
       = [(lit ''city'', PStr (lit ''warszawa_1''))]"
proof -
  have "map_of (get_region_from_filters filters) k
          = (if k \<in> set REGION_DATA_KEYS then map_of filters k else None)"
    by (auto simp: get_region_from_filters_def REGION_DATA_KEYS_def dict_contains_def
        dict_get_def lit_def split: option.splits)
  moreover have "distinct (map fst (get_region_from_filters filters))"
    by (simp add: get_region_from_filters_def REGION_DATA_KEYS_def dict_contains_def
        dict_get_def lit_def)
  moreover have "get_region_from_filters
         [(lit ''city'', PStr (lit ''warszawa_1'')), (lit ''unused'', PStr (lit ''x''))]
       = [(lit ''city'', PStr (lit ''warszawa_1''))]"
    by (simp add: get_region_from_filters_def REGION_DATA_KEYS_def dict_contains_def
        dict_get_def lit_def)
  ultimately show ?thesis by blast
qed

section \<open>get_region_from_autosuggest\<close>

text \<open>
  C8. With the empty string \<open>get_region_from_autosuggest\<close> returns the empty mapping and
  requests nothing.
\<close>

theorem autosuggest_empty_region:
  "get_region_from_autosuggest E [] = (Inr [], [])"
  by (simp add: get_region_from_autosuggest_def)




lemma levels_distinct:
  "lit ''DISTRICT'' \<noteq> lit ''CITY''" "lit ''REGION'' \<noteq> lit ''CITY''"
  "lit ''REGION'' \<noteq> lit ''DISTRICT''" "lit ''STREET'' \<noteq> lit ''CITY''"
  "lit ''STREET'' \<noteq> lit ''DISTRICT''" "lit ''STREET'' \<noteq> lit ''REGION''"
  by (simp_all add: lit_def)

lemma autosuggest_fst:
  "region_part \<noteq> [] \<Longrightarrow>
   fst (get_region_from_autosuggest E region_part)
     = bind_e (requests_get_text E (autosuggest_url region_part)) (\<lambda>body.
       bind_e (json_loads E body) (\<lambda>reply.
       bind_e (subscript_0 reply) (region_of_response E)))"
  by (simp add: get_region_from_autosuggest_def get_response_for_url_def caching_def Let_def)

lemma region_no_level:
  "map_of d (lit ''level'') = None \<Longrightarrow> region_of_response E (PDict d) = Inl KeyError"
  by (simp add: region_of_response_def dict_item_def)

lemma region_no_text:
  "map_of d (lit ''level'') = Some v \<Longrightarrow> map_of d (lit ''text'') = None \<Longrightarrow>
   region_of_response E (PDict d) = Inl KeyError"
  by (simp add: region_of_response_def dict_item_def)

lemma city_entry_no_id:
  "map_of d (lit ''city_id'') = None \<Longrightarrow> isl (city_entry E (PDict d) parts i)"
  by (cases "list_item parts i") (simp_all add: city_entry_def dict_item_def)

lemma region_no_city_id:
  assumes l: "map_of d (lit ''level'') = Some (PStr l)"
    and c: "l = lit ''CITY'' \<or> l = lit ''DISTRICT'' \<or> l = lit ''STREET''"
    and n: "map_of d (lit ''city_id'') = None"
  shows "isl (region_of_response E (PDict d))"
proof (cases "bind_e (subscript_key (PDict d) (lit ''text'')) text_parts")
  case (Inl e)
  then show ?thesis by (simp add: region_of_response_def dict_item_def l)
next
  case (Inr parts)
  have "isl (bind_e (city_entry E (PDict d) parts i) f)"
    for i and f :: "pyval \<Rightarrow> error + dict"
    by (rule isl_bind_e) (rule city_entry_no_id [OF n])
  with Inr c show ?thesis
    by (auto simp: region_of_response_def l dict_item_def levels_distinct
        levels_distinct [symmetric])
qed

lemma region_no_district_id:
  assumes l: "map_of d (lit ''level'') = Some (PStr (lit ''DISTRICT''))"
    and n: "map_of d (lit ''district_id'') = None"
  shows "isl (region_of_response E (PDict d))"
proof (cases "bind_e (subscript_key (PDict d) (lit ''text'')) text_parts")
  case (Inl e)
  then show ?thesis by (simp add: region_of_response_def dict_item_def l)
next
  case (Inr parts)
  then show ?thesis
    by (cases "city_entry E (PDict d) parts 1")
       (simp_all add: region_of_response_def l n dict_item_def levels_distinct)
qed

lemma region_no_street_id:
  assumes l: "map_of d (lit ''level'') = Some (PStr (lit ''STREET''))"
    and n: "map_of d (lit ''street_id'') = None"
  shows "isl (region_of_response E (PDict d))"
proof (cases "bind_e (subscript_key (PDict d) (lit ''text'')) text_parts")
  case (Inl e)
  then show ?thesis by (simp add: region_of_response_def dict_item_def l)
next
  case (Inr parts)
  then show ?thesis
    by (cases "city_entry E (PDict d) parts 0")
       (simp_all add: region_of_response_def l n dict_item_def levels_distinct)
qed

lemma region_other_level:
  "map_of d (lit ''level'') = Some v \<Longrightarrow>
   v \<notin> PStr ` {lit ''CITY'', lit ''DISTRICT'', lit ''REGION'', lit ''STREET''} \<Longrightarrow>
   map_of d (lit ''text'') = Some (PStr t) \<Longrightarrow>
   region_of_response E (PDict d) = Inr []"
  by (simp add: region_of_response_def dict_item_def)


text \<open>
  C6, as amended. For a region fragment that is not empty, \<open>get_region_from_autosuggest\<close>
  raises, and returns no mapping, when the request or the JSON decoding raises, when the
  reply is an empty array, when its first element is an object without \<open>level\<close> or
  without \<open>text\<close>, and when that object lacks a field that the branch of its level reads:
  \<open>city_id\<close> for CITY, DISTRICT and STREET, \<open>district_id\<close> for DISTRICT,
  \<open>street_id\<close> for STREET. When \<open>level\<close> is none of the four values and \<open>text\<close> is a
  string, it raises nothing and returns the empty mapping.
\<close>

theorem autosuggest_failures:
  assumes ne: "region_part \<noteq> []"
  shows
  "(requests_get_text E (autosuggest_url region_part) = Inl e \<longrightarrow>
      fst (get_region_from_autosuggest E region_part) = Inl e)
   \<and> (requests_get_text E (autosuggest_url region_part) = Inr body \<longrightarrow>
        (json_loads E body = Inl e \<longrightarrow>
           fst (get_region_from_autosuggest E region_part) = Inl e)
      \<and> (json_loads E body = Inr (PList []) \<longrightarrow>
           fst (get_region_from_autosuggest E region_part) = Inl IndexError)
      \<and> (json_loads E body = Inr (PList (PDict d # rest)) \<longrightarrow>
           (map_of d (lit ''level'') = None \<or> map_of d (lit ''text'') = None \<longrightarrow>
              fst (get_region_from_autosuggest E region_part) = Inl KeyError)
         \<and> (map_of d (lit ''level'') = Some (PStr l)
              \<and> (l = lit ''CITY'' \<or> l = lit ''DISTRICT'' \<or> l = lit ''STREET'')
              \<and> map_of d (lit ''city_id'') = None \<longrightarrow>
              isl (fst (get_region_from_autosuggest E region_part)))
         \<and> (map_of d (lit ''level'') = Some (PStr (lit ''DISTRICT''))
              \<and> map_of d (lit ''district_id'') = None \<longrightarrow>
              isl (fst (get_region_from_autosuggest E region_part)))
         \<and> (map_of d (lit ''level'') = Some (PStr (lit ''STREET''))
              \<and> map_of d (lit ''street_id'') = None \<longrightarrow>
              isl (fst (get_region_from_autosuggest E region_part)))
         \<and> (map_of d (lit ''level'') = Some v
              \<and> v \<notin> PStr ` {lit ''CITY'', lit ''DISTRICT'', lit ''REGION'', lit ''STREET''}
              \<and> map_of d (lit ''text'') = Some (PStr t) \<longrightarrow>
              fst (get_region_from_autosuggest E region_part) = Inr [])))"
proof -
  let ?R = "fst (get_region_from_autosuggest E region_part)"
  have first: "?R = region_of_response E (PDict d)"
    if "requests_get_text E (autosuggest_url region_part) = Inr body"
      and "json_loads E body = Inr (PList (PDict d # rest))"
    using that by (simp add: autosuggest_fst [OF ne])
  have a: "requests_get_text E (autosuggest_url region_part) = Inl e \<longrightarrow> ?R = Inl e"
    by (simp add: autosuggest_fst [OF ne])
  have b: "json_loads E body = Inl e \<longrightarrow> ?R = Inl e"
    if "requests_get_text E (autosuggest_url region_part) = Inr body"
    using that by (simp add: autosuggest_fst [OF ne])
  have c: "json_loads E body = Inr (PList []) \<longrightarrow> ?R = Inl IndexError"
    if "requests_get_text E (autosuggest_url region_part) = Inr body"
    using that by (simp add: autosuggest_fst [OF ne])
  have d1: "map_of d (lit ''level'') = None \<or> map_of d (lit ''text'') = None \<longrightarrow>
              region_of_response E (PDict d) = Inl KeyError"
    using region_no_level [of d E] region_no_text [of d _ E]
    by (cases "map_of d (lit ''level'')") auto
  have d2: "map_of d (lit ''level'') = Some (PStr l)
              \<and> (l = lit ''CITY'' \<or> l = lit ''DISTRICT'' \<or> l = lit ''STREET'')
              \<and> map_of d (lit ''city_id'') = None \<longrightarrow>
              isl (region_of_response E (PDict d))"
    using region_no_city_id [of d l E] by blast
  have d3: "map_of d (lit ''level'') = Some (PStr (lit ''DISTRICT''))
              \<and> map_of d (lit ''district_id'') = None \<longrightarrow>
              isl (region_of_response E (PDict d))"
    using region_no_district_id [of d E] by blast
  have d4: "map_of d (lit ''level'') = Some (PStr (lit ''STREET''))
              \<and> map_of d (lit ''street_id'') = None \<longrightarrow>
              isl (region_of_response E (PDict d))"
    using region_no_street_id [of d E] by blast
  have d5: "map_of d (lit ''level'') = Some v
              \<and> v \<notin> PStr ` {lit ''CITY'', lit ''DISTRICT'', lit ''REGION'', lit ''STREET''}
              \<and> map_of d (lit ''text'') = Some (PStr t) \<longrightarrow>
              region_of_response E (PDict d) = Inr []"
    using region_other_level [of d v t E] by blast
  show ?thesis
  proof (intro conjI impI)
    show "?R = Inl e" if "requests_get_text E (autosuggest_url region_part) = Inl e"
      using a that by blast
  next
    show "?R = Inl e" if "requests_get_text E (autosuggest_url region_part) = Inr body"
      and "json_loads E body = Inl e"
      using b that by blast
  next
    show "?R = Inl IndexError" if "requests_get_text E (autosuggest_url region_part) = Inr body"
      and "json_loads E body = Inr (PList [])"
      using c that by blast
  next
    show "?R = Inl KeyError" if "requests_get_text E (autosuggest_url region_part) = Inr body"
      and "json_loads E body = Inr (PList (PDict d # rest))"
      and "map_of d (lit ''level'') = None \<or> map_of d (lit ''text'') = None"
      using first d1 that by simp
  next
    show "isl ?R" if "requests_get_text E (autosuggest_url region_part) = Inr body"
      and "json_loads E body = Inr (PList (PDict d # rest))"
      and "map_of d (lit ''level'') = Some (PStr l)
              \<and> (l = lit ''CITY'' \<or> l = lit ''DISTRICT'' \<or> l = lit ''STREET'')
              \<and> map_of d (lit ''city_id'') = None"
      using first d2 that by simp
  next
    show "isl ?R" if "requests_get_text E (autosuggest_url region_part) = Inr body"
      and "json_loads E body = Inr (PList (PDict d # rest))"
      and "map_of d (lit ''level'') = Some (PStr (lit ''DISTRICT''))
              \<and> map_of d (lit ''district_id'') = None"
      using first d3 that by simp
  next
    show "isl ?R" if "requests_get_text E (autosuggest_url region_part) = Inr body"
      and "json_loads E body = Inr (PList (PDict d # rest))"
      and "map_of d (lit ''level'') = Some (PStr (lit ''STREET''))
              \<and> map_of d (lit ''street_id'') = None"
      using first d4 that by simp
  next
    show "?R = Inr []" if "requests_get_text E (autosuggest_url region_part) = Inr body"
      and "json_loads E body = Inr (PList (PDict d # rest))"
      and "map_of d (lit ''level'') = Some v
              \<and> v \<notin> PStr ` {lit ''CITY'', lit ''DISTRICT'', lit ''REGION'', lit ''STREET''}
              \<and> map_of d (lit ''text'') = Some (PStr t)"
      using first d5 that by simp
  qed
qed

text \<open>
  The theorem at three runs: a server that cannot be reached, a district without its
  \<open>district_id\<close>, and a reply of level COUNTRY.
\<close>

theorem autosuggest_failures_witness:
  "fst (get_region_from_autosuggest offline (lit ''wola'')) = Inl RequestException
   \<and> isl (fst (get_region_from_autosuggest (serving district_reply) (lit ''wola'')))
   \<and> fst (get_region_from_autosuggest (serving country_reply) (lit ''pol'')) = Inr []"
proof -
  have "fst (get_region_from_autosuggest offline (lit ''wola'')) = Inl RequestException"
    using autosuggest_failures [where region_part = "lit ''wola''" and E = offline
        and e = RequestException]
    by (simp add: offline_def run_platform_def lit_def)
  moreover
  have "isl (fst (get_region_from_autosuggest (serving district_reply) (lit ''wola'')))"
    using autosuggest_failures [where region_part = "lit ''wola''"
        and E = "serving district_reply" and body = "lit ''(body)''" and rest = "[]"
        and d = "[(lit ''level'', PStr (lit ''DISTRICT'')),
                  (lit ''text'', PStr (lit ''<strong>Wol</strong>a, Warszawa'')),
                  (lit ''city_id'', PInt 26)]"]
    by (simp add: serving_def run_platform_def district_reply_def lit_def)
  moreover
  have "fst (get_region_from_autosuggest (serving country_reply) (lit ''pol'')) = Inr []"
    using autosuggest_failures [where region_part = "lit ''pol''"
        and E = "serving country_reply" and body = "lit ''(body)''" and rest = "[]"
        and v = "PStr (lit ''COUNTRY'')" and t = "lit ''<strong>Pol</strong>ska''"
        and d = "[(lit ''level'', PStr (lit ''COUNTRY'')),
                  (lit ''text'', PStr (lit ''<strong>Pol</strong>ska'')),
                  (lit ''city_id'', PInt 1)]"]
    by (simp add: serving_def run_platform_def country_reply_def lit_def)
  ultimately show ?thesis by blast
qed

text \<open>
  The claim as stated fails at two replies. With the level COUNTRY the function returns
  the empty mapping where the claim has it raise, and a REGION element without \<open>city_id\<close>
  (one of the fields the claim lists) gives a result as well.
\<close>

theorem autosuggest_default_results:
  "get_region_from_autosuggest (serving country_reply) (lit ''pol'')
     = (Inr [], [lit ''https://www.otodom.pl/ajax/geo6/autosuggest/?data=pol''])
   \<and> fst (get_region_from_autosuggest (serving region_reply) (lit ''mazo''))
     = Inr [(lit ''voivodeship'', PStr (lit ''mazowieckie''))]"
proof -
  have "get_region_from_autosuggest (serving country_reply) (lit ''pol'')
     = (Inr [], [lit ''https://www.otodom.pl/ajax/geo6/autosuggest/?data=pol''])"
    by (simp add: get_region_from_autosuggest_def get_response_for_url_def caching_def
        autosuggest_url_def serving_def run_platform_def country_reply_def
        region_of_response_def dict_item_def Let_def lit_def)
  moreover
  have "fst (get_region_from_autosuggest (serving region_reply) (lit ''mazo''))
     = region_of_response (serving region_reply)
         (PDict [(lit ''level'', PStr (lit ''REGION'')),
                 (lit ''text'', PStr (lit ''<strong>Mazo</strong>wieckie''))])"
    by (simp add: autosuggest_fst serving_def run_platform_def region_reply_def lit_def)
  moreover
  have "region_of_response E
         (PDict [(lit ''level'', PStr (lit ''REGION'')),
                 (lit ''text'', PStr (lit ''<strong>Mazo</strong>wieckie''))])
     = Inr [(lit ''voivodeship'', PStr (normalize_text E (lit ''Mazowieckie'')))]" for E
    by (simp add: region_of_response_def dict_item_def list_item_def str_split_def lit_def)
  moreover
  have "normalize_text (serving region_reply) (lit ''Mazowieckie'') = lit ''mazowieckie''"
    by (simp add: serving_def run_platform_def normalize_text_def ucd_lower_def
        ucd_lower_cp_def lower_rows_def ucd_nfkd_def ucd_nfkd_cp_def nfkd_rows_def
        encode_ascii_ignore_def decode_utf8_of_ascii_def lit_def)
  ultimately show ?thesis by simp
qed


section \<open>get_url: where the region comes from\<close>

lemma any_region_key:
  "list_ex (dict_contains filters) REGION_DATA_KEYS
     = (set REGION_DATA_KEYS \<inter> fst ` set filters \<noteq> {})"
  by (auto simp: list_ex_iff dict_contains_def map_of_eq_None_iff)

lemma repr_char_network:
  "repr_char (E\<lparr>requests_get_text := srv, json_loads := dec\<rparr>) = repr_char E"
  by (intro ext) (simp add: repr_char_def)

lemma str_repr_network:
  "str_repr (E\<lparr>requests_get_text := srv, json_loads := dec\<rparr>) s = str_repr E s"
  by (simp add: str_repr_def repr_char_network)

lemma py_repr_network:
  "py_repr (E\<lparr>requests_get_text := srv, json_loads := dec\<rparr>) v = py_repr E v"
proof (induction E v rule: py_repr.induct)
  case (5 E xs)
  then have "map (py_repr (E\<lparr>requests_get_text := srv, json_loads := dec\<rparr>)) xs
      = map (py_repr E) xs"
    by simp
  then show ?case by (simp only: py_repr.simps)
next
  case (8 E x y ys)
  then have "map (py_repr (E\<lparr>requests_get_text := srv, json_loads := dec\<rparr>)) (x # y # ys)
      = map (py_repr E) (x # y # ys)"
    by simp
  then show ?case by (simp only: py_repr.simps)
next
  case (9 E d)
  then have "map (\<lambda>kv. str_repr (E\<lparr>requests_get_text := srv, json_loads := dec\<rparr>) (fst kv)
              @ lit '': '' @ py_repr (E\<lparr>requests_get_text := srv, json_loads := dec\<rparr>) (snd kv)) d
      = map (\<lambda>kv. str_repr E (fst kv) @ lit '': '' @ py_repr E (snd kv)) d"
    by (simp add: str_repr_network)
  then show ?case by (simp only: py_repr.simps)
qed (simp_all add: str_repr_network)

lemma py_str_network:
  "py_str (E\<lparr>requests_get_text := srv, json_loads := dec\<rparr>) v = py_str E v"
  by (cases v) (simp_all only: py_str.simps py_repr_network)

lemma search_fragment_network:
  "search_fragment (E\<lparr>requests_get_text := srv, json_loads := dec\<rparr>) k
     = search_fragment E k"
  by (rule ext) (simp add: search_fragment_def py_str_network)

lemma entry_fragments_network:
  "entry_fragments (E\<lparr>requests_get_text := srv, json_loads := dec\<rparr>) kv
     = entry_fragments E kv"
  by (cases "(E, kv)" rule: entry_fragments.cases) (simp_all add: search_fragment_network)

lemma filter_list_network:
  "filter_list (E\<lparr>requests_get_text := srv, json_loads := dec\<rparr>) d = filter_list E d"
  by (induction d) (simp_all add: entry_fragments_network)

lemma url_for_region_network:
  "url_for_region (E\<lparr>requests_get_text := srv, json_loads := dec\<rparr>) mc dc app pg filters rd
     = url_for_region E mc dc app pg filters rd"
  by (simp add: url_for_region_def url_path_def filter_list_network)

lemma page_fragment_network:
  "page_fragment (E\<lparr>requests_get_text := srv, json_loads := dec\<rparr>) page
     = page_fragment E page"
  by (simp add: page_fragment_def py_str_network)

lemma no_region_key:
  "set REGION_DATA_KEYS \<inter> fst ` set filters = {} \<Longrightarrow> get_region_from_filters filters = []"
  using any_region_key [of filters]
  by (simp add: get_region_from_filters_def REGION_DATA_KEYS_def)

text \<open>
  C2. When the filters hold at least one of the four region keys, \<open>get_url\<close> builds the
  URL from \<open>get_region_from_filters\<close> alone and requests nothing: the result is the same
  for any other region argument, server and decoder. When they hold none,
  \<open>get_region_from_filters\<close> would give nothing, and the region comes from
  \<open>get_region_from_autosuggest\<close> on the region argument, with the requests it makes. The
  two are never combined.
\<close>

theorem get_url_region_source:
  "(set REGION_DATA_KEYS \<inter> fst ` set filters \<noteq> {} \<longrightarrow>
      get_url E mc dc region app page filters
        = (url_for_region E mc dc app (page_fragment E page) filters
             (get_region_from_filters filters), [])
      \<and> get_url E mc dc region app page filters
        = get_url (E\<lparr>requests_get_text := srv, json_loads := dec\<rparr>)
            mc dc region' app page filters)
   \<and> (set REGION_DATA_KEYS \<inter> fst ` set filters = {} \<longrightarrow>
      get_region_from_filters filters = []
      \<and> get_url E mc dc region app page filters
        = (bind_e (fst (get_region_from_autosuggest E region))
             (url_for_region E mc dc app (page_fragment E page) filters),
           snd (get_region_from_autosuggest E region)))"
  by (simp add: get_url_def any_region_key no_region_key url_for_region_network
      page_fragment_network split: prod.splits)

text \<open>
  The theorem at two calls on a platform whose server cannot be reached: with a \<open>city\<close>
  filter the URL is built and nothing is requested; without a region key the request is
  made and its failure is the result.
\<close>

lemma warszawa_url:
  "get_url E (lit ''sprzedaz'') (lit ''mieszkanie'') region [] PNone
     [(lit ''city'', PStr (lit ''warszawa_1''))]
   = (Inr (BASE_URL E @ lit ''/sprzedaz/mieszkanie/warszawa_1&&searchcity=warszawa_1''), [])"
  by (simp add: get_url_def REGION_DATA_KEYS_def dict_contains_def get_region_from_filters_def
     dict_get_def url_for_region_def promote_ids_def city_or_voivodeship_def url_path_def
     page_fragment_def search_fragment_def quote_def utf8_encode_cp_def
     quote_byte_def always_safe_def hex_digit_def lit_def)

theorem get_url_region_source_witness:
  "get_url offline (lit ''sprzedaz'') (lit ''mieszkanie'') (lit ''krakow'') [] PNone
     [(lit ''city'', PStr (lit ''warszawa_1''))]
     = (Inr (lit ''https://www.otodom.pl/sprzedaz/mieszkanie/warszawa_1&&searchcity=warszawa_1''),
        [])
   \<and> get_url offline (lit ''sprzedaz'') (lit ''mieszkanie'') (lit ''krakow'') [] PNone []
     = (Inl RequestException,
        [lit ''https://www.otodom.pl/ajax/geo6/autosuggest/?data=krakow''])"
proof -
  have k: "set REGION_DATA_KEYS \<inter> fst ` set [(lit ''city'', PStr (lit ''warszawa_1''))] \<noteq> {}"
    by (simp add: REGION_DATA_KEYS_def)
  have "get_url offline (lit ''sprzedaz'') (lit ''mieszkanie'') (lit ''krakow'') [] PNone
     [(lit ''city'', PStr (lit ''warszawa_1''))]
     = get_url (offline\<lparr>requests_get_text := \<lambda>url. Inr [], json_loads := \<lambda>body. Inr PNone\<rparr>)
         (lit ''sprzedaz'') (lit ''mieszkanie'') [] [] PNone
         [(lit ''city'', PStr (lit ''warszawa_1''))]"
    using get_url_region_source [where filters = "[(lit ''city'', PStr (lit ''warszawa_1''))]"
        and E = offline] k
    by blast
  also have "\<dots> = (Inr (lit ''https://www.otodom.pl/sprzedaz/mieszkanie/warszawa_1&&searchcity=warszawa_1''), [])"
    by (simp only: warszawa_url) (simp add: offline_def run_platform_def lit_def)
  finally have a: "get_url offline (lit ''sprzedaz'') (lit ''mieszkanie'') (lit ''krakow'') [] PNone
     [(lit ''city'', PStr (lit ''warszawa_1''))]
     = (Inr (lit ''https://www.otodom.pl/sprzedaz/mieszkanie/warszawa_1&&searchcity=warszawa_1''), [])" .
  have r: "get_region_from_autosuggest offline (lit ''krakow'')
      = (Inl RequestException, [lit ''https://www.otodom.pl/ajax/geo6/autosuggest/?data=krakow''])"
    by (simp add: get_region_from_autosuggest_def get_response_for_url_def caching_def
        autosuggest_url_def offline_def run_platform_def Let_def lit_def)
  have b: "get_url offline (lit ''sprzedaz'') (lit ''mieszkanie'') (lit ''krakow'') [] PNone []
     = (Inl RequestException,
        [lit ''https://www.otodom.pl/ajax/geo6/autosuggest/?data=krakow''])"
    using get_url_region_source [where filters = "[]" and E = offline
        and region = "lit ''krakow''"]
    by (simp add: r)
  from a b show ?thesis by blast
qed

section \<open>get_url: the query fragments\<close>

lemma map_e_search:
  "quote key = Inr q \<Longrightarrow>
   map_e (search_fragment E key) items
     = Inr (map (\<lambda>item. lit ''search'' @ q @ lit ''='' @ py_str E item) items)"
  by (induction items) (simp_all add: search_fragment_def bind_e_def)

lemma entry_fragments_list:
  "quote key = Inr q \<Longrightarrow>
   entry_fragments E (key, PList items)
     = Inr (map (\<lambda>item. lit ''search'' @ q @ lit ''='' @ py_str E item) items)"
  by (simp add: map_e_search)

lemma entry_fragments_scalar:
  "quote key = Inr q \<Longrightarrow> \<forall>items. v \<noteq> PList items \<Longrightarrow>
   entry_fragments E (key, v) = Inr [lit ''search'' @ q @ lit ''='' @ py_str E v]"
  by (cases v) (simp_all add: search_fragment_def bind_e_def)

lemma str_join_unset:
  "str_join (lit ''&'') ([] # [] # fs)
     = (if fs = [] then lit ''&'' else lit ''&&'' @ str_join (lit ''&'') fs)"
  by (cases fs) (simp_all add: lit_def)

lemma entry_fragments_expected:
  "quote key = Inr q \<Longrightarrow> entry_fragments E (key, v) = Inr (expected_fragments E q v)"
  by (cases v) (simp_all add: expected_fragments_def search_fragment_def map_e_search)

lemma filter_list_expected:
  "map_e quote (map fst entries) = Inr qs \<Longrightarrow>
   filter_list E entries = Inr (concat (map2 (expected_fragments E) qs (map snd entries)))"
proof (induction entries arbitrary: qs)
  case Nil
  then show ?case by simp
next
  case (Cons entry entries)
  obtain key v where e: "entry = (key, v)"
    by (cases entry)
  from Cons.prems e obtain q qs' where q: "quote key = Inr q"
    and r: "map_e quote (map fst entries) = Inr qs'" and qs: "qs = q # qs'"
    by (cases "quote key"; cases "map_e quote (map fst entries)") auto
  from Cons.IH [OF r] entry_fragments_expected [OF q, of E v]
  show ?case by (simp add: e qs)
qed

lemma url_for_region_expected:
  assumes "map_e quote (map fst (promote_ids filters rd)) = Inr qs"
    and "url_path E mc dc (promote_ids filters rd) (city_or_voivodeship rd) = Inr path"
  shows "url_for_region E mc dc app pg filters rd
     = Inr (path @ str_join (lit ''&'')
              (app # pg # concat (map2 (expected_fragments E) qs
                                    (map snd (promote_ids filters rd)))))"
  using assms(2) filter_list_expected [OF assms(1), of E]
  by (simp add: url_for_region_def Let_def)

text \<open>
  C4, as amended. With \<open>q\<close> the URL-escaped key, an entry whose value is a list gives
  one fragment \<open>search<q>=<item>\<close> for each item, and any other entry (a scalar, and a
  tuple as well) gives the one fragment \<open>search<q>=<value>\<close>: the fragments of the
  specification's step 6 with a list for its sequence. When the region resolves, the path
  is built and every key of the filters (after the district and street identifiers were
  written into them) can be escaped, \<open>get_url\<close> returns the path followed by the
  ads-per-page fragment, the page fragment and the fragments of all entries, joined with
  \<open>&\<close>. With both ads-per-page and page unset the join is \<open>&\<close> when there is no
  fragment and \<open>&&\<close> before the fragments otherwise.
\<close>

theorem get_url_query_fragments:
  "(quote key = Inr q \<longrightarrow>
      entry_fragments E (key, PList items)
        = Inr (map (\<lambda>item. lit ''search'' @ q @ lit ''='' @ py_str E item) items)
      \<and> ((\<forall>xs. v \<noteq> PList xs) \<longrightarrow>
           entry_fragments E (key, v) = Inr [lit ''search'' @ q @ lit ''='' @ py_str E v])
      \<and> entry_fragments E (key, v) = Inr (expected_fragments E q v))
   \<and> (map_e quote (map fst (promote_ids filters rd)) = Inr qs
      \<and> url_path E mc dc (promote_ids filters rd) (city_or_voivodeship rd) = Inr path \<longrightarrow>
        (set REGION_DATA_KEYS \<inter> fst ` set filters \<noteq> {}
         \<and> rd = get_region_from_filters filters \<longrightarrow>
           get_url E mc dc region app page filters
             = (Inr (path @ str_join (lit ''&'')
                  (app # page_fragment E page
                     # concat (map2 (expected_fragments E) qs
                                 (map snd (promote_ids filters rd))))),
                []))
      \<and> (set REGION_DATA_KEYS \<inter> fst ` set filters = {}
         \<and> fst (get_region_from_autosuggest E region) = Inr rd \<longrightarrow>
           get_url E mc dc region app page filters
             = (Inr (path @ str_join (lit ''&'')
                  (app # page_fragment E page
                     # concat (map2 (expected_fragments E) qs
                                 (map snd (promote_ids filters rd))))),
                snd (get_region_from_autosuggest E region))))
   \<and> str_join (lit ''&'') ([] # page_fragment E PNone # fs)
       = (if fs = [] then lit ''&'' else lit ''&&'' @ str_join (lit ''&'') fs)"
proof -
  have a: "quote key = Inr q \<longrightarrow>
      entry_fragments E (key, PList items)
        = Inr (map (\<lambda>item. lit ''search'' @ q @ lit ''='' @ py_str E item) items)
      \<and> ((\<forall>xs. v \<noteq> PList xs) \<longrightarrow>
           entry_fragments E (key, v) = Inr [lit ''search'' @ q @ lit ''='' @ py_str E v])
      \<and> entry_fragments E (key, v) = Inr (expected_fragments E q v)"
    using entry_fragments_list entry_fragments_scalar entry_fragments_expected by blast
  have b: "get_url E mc dc region app page filters
             = (Inr (path @ str_join (lit ''&'')
                  (app # page_fragment E page
                     # concat (map2 (expected_fragments E) qs
                                 (map snd (promote_ids filters rd))))),
                [])"
    if "map_e quote (map fst (promote_ids filters rd)) = Inr qs"
      and "url_path E mc dc (promote_ids filters rd) (city_or_voivodeship rd) = Inr path"
      and "set REGION_DATA_KEYS \<inter> fst ` set filters \<noteq> {}"
      and "rd = get_region_from_filters filters"
    using url_for_region_expected [OF that(1) that(2)] that(3) that(4)
    by (simp add: get_url_def any_region_key)
  have c: "get_url E mc dc region app page filters
             = (Inr (path @ str_join (lit ''&'')
                  (app # page_fragment E page
                     # concat (map2 (expected_fragments E) qs
                                 (map snd (promote_ids filters rd))))),
                snd (get_region_from_autosuggest E region))"
    if "map_e quote (map fst (promote_ids filters rd)) = Inr qs"
      and "url_path E mc dc (promote_ids filters rd) (city_or_voivodeship rd) = Inr path"
      and "set REGION_DATA_KEYS \<inter> fst ` set filters = {}"
      and "fst (get_region_from_autosuggest E region) = Inr rd"
  proof (cases "get_region_from_autosuggest E region")
    case (Pair r reqs)
    with that(4) have "r = Inr rd"
      by simp
    with Pair url_for_region_expected [OF that(1) that(2)] that(3) show ?thesis
      by (simp add: get_url_def any_region_key)
  qed
  have d: "str_join (lit ''&'') ([] # page_fragment E PNone # fs)
       = (if fs = [] then lit ''&'' else lit ''&&'' @ str_join (lit ''&'') fs)"
    by (simp add: page_fragment_def str_join_unset del: str_join.simps)
  from a b c d show ?thesis by blast
qed


text \<open>
  The theorem at the filter \<open>[rooms] = [1, 2]\<close>, alone and after a \<open>city\<close> filter: two
  fragments with the key escaped as \<open>%5Brooms%5D\<close>, after the two \<open>&\<close> of the unset
  ads-per-page and page.
\<close>

lemma quote_rooms: "quote (lit ''[rooms]'') = Inr (lit ''%5Brooms%5D'')"
  by (simp add: quote_def utf8_encode_cp_def quote_byte_def always_safe_def hex_digit_def
      lit_def)

lemma quote_city: "quote (lit ''city'') = Inr (lit ''city'')"
  by (simp add: quote_def utf8_encode_cp_def quote_byte_def always_safe_def hex_digit_def
      lit_def)

theorem get_url_query_fragments_witness:
  "entry_fragments offline (lit ''[rooms]'', PList [PInt 1, PInt 2])
     = Inr [lit ''search%5Brooms%5D=1'', lit ''search%5Brooms%5D=2'']
   \<and> entry_fragments offline (lit ''[rooms]'', PInt 3) = Inr [lit ''search%5Brooms%5D=3'']
   \<and> get_url offline (lit ''sprzedaz'') (lit ''mieszkanie'') [] [] PNone
         [(lit ''[rooms]'', PList [PInt 1, PInt 2])]
     = (Inr (lit ''https://www.otodom.pl/sprzedaz/mieszkanie/&&search%5Brooms%5D=1&search%5Brooms%5D=2''),
        [])
   \<and> get_url offline (lit ''sprzedaz'') (lit ''mieszkanie'') [] [] PNone
         [(lit ''city'', PStr (lit ''warszawa_1'')), (lit ''[rooms]'', PList [PInt 1, PInt 2])]
     = (Inr (lit ''https://www.otodom.pl/sprzedaz/mieszkanie/warszawa_1&&searchcity=warszawa_1&search%5Brooms%5D=1&search%5Brooms%5D=2''),
        [])"
proof -
  let ?rooms = "(lit ''[rooms]'', PList [PInt 1, PInt 2])"
  let ?city = "(lit ''city'', PStr (lit ''warszawa_1''))"
  note t1 = get_url_query_fragments [where E = offline and key = "lit ''[rooms]''"
      and q = "lit ''%5Brooms%5D''" and items = "[PInt 1, PInt 2]" and v = "PInt 3"
      and mc = "lit ''sprzedaz''" and dc = "lit ''mieszkanie''" and region = "[]"
      and app = "[]" and page = PNone and filters = "[?rooms]" and rd = "[]"
      and qs = "[lit ''%5Brooms%5D'']"
      and path = "lit ''https://www.otodom.pl/sprzedaz/mieszkanie/''"]
  note t2 = get_url_query_fragments [where E = offline and key = "lit ''[rooms]''"
      and q = "lit ''%5Brooms%5D''" and items = "[PInt 1, PInt 2]" and v = "PInt 3"
      and mc = "lit ''sprzedaz''" and dc = "lit ''mieszkanie''" and region = "[]"
      and app = "[]" and page = PNone and filters = "[?city, ?rooms]" and rd = "[?city]"
      and qs = "[lit ''city'', lit ''%5Brooms%5D'']"
      and path = "lit ''https://www.otodom.pl/sprzedaz/mieszkanie/warszawa_1''"]
  have base: "BASE_URL offline = lit ''https://www.otodom.pl''"
    by (simp add: offline_def run_platform_def)
  from t1 quote_rooms have
    "entry_fragments offline ?rooms
       = Inr (map (\<lambda>item. lit ''search'' @ lit ''%5Brooms%5D'' @ lit ''='' @ py_str offline item)
                [PInt 1, PInt 2])"
    and "entry_fragments offline (lit ''[rooms]'', PInt 3)
       = Inr [lit ''search'' @ lit ''%5Brooms%5D'' @ lit ''='' @ py_str offline (PInt 3)]"
    by simp_all
  then have a: "entry_fragments offline ?rooms
       = Inr [lit ''search%5Brooms%5D=1'', lit ''search%5Brooms%5D=2'']"
    and b: "entry_fragments offline (lit ''[rooms]'', PInt 3) = Inr [lit ''search%5Brooms%5D=3'']"
    by (simp_all add: str_of_int_def digits.simps lit_def)
  have p1: "promote_ids [?rooms] [] = [?rooms]"
    by (simp add: promote_ids_def dict_contains_def)
  have q1: "map_e quote (map fst (promote_ids [?rooms] [])) = Inr [lit ''%5Brooms%5D'']"
    by (simp add: p1 quote_rooms)
  have u1: "url_path offline (lit ''sprzedaz'') (lit ''mieszkanie'') (promote_ids [?rooms] [])
              (city_or_voivodeship []) = Inr (lit ''https://www.otodom.pl/sprzedaz/mieszkanie/'')"
    by (simp add: p1 url_path_def city_or_voivodeship_def dict_contains_def base)
       (simp add: lit_def)
  have k1: "set REGION_DATA_KEYS \<inter> fst ` set [?rooms] = {}"
    by (simp add: REGION_DATA_KEYS_def lit_def)
  have r1: "get_region_from_autosuggest offline [] = (Inr [], [])"
    by (simp add: get_region_from_autosuggest_def)
  from t1 q1 u1 k1 r1 have
    "get_url offline (lit ''sprzedaz'') (lit ''mieszkanie'') [] [] PNone [?rooms]
       = (Inr (lit ''https://www.otodom.pl/sprzedaz/mieszkanie/'' @ str_join (lit ''&'')
                ([] # page_fragment offline PNone
                   # concat (map2 (expected_fragments offline) [lit ''%5Brooms%5D'']
                               (map snd (promote_ids [?rooms] []))))),
          [])"
    by simp
  then have c: "get_url offline (lit ''sprzedaz'') (lit ''mieszkanie'') [] [] PNone [?rooms]
     = (Inr (lit ''https://www.otodom.pl/sprzedaz/mieszkanie/&&search%5Brooms%5D=1&search%5Brooms%5D=2''),
        [])"
    unfolding p1
    by (simp add: page_fragment_def expected_fragments_def str_of_int_def digits.simps
        lit_def)
  have g2: "get_region_from_filters [?city, ?rooms] = [?city]"
    by (simp add: get_region_from_filters_def REGION_DATA_KEYS_def dict_contains_def
        dict_get_def lit_def)
  have p2: "promote_ids [?city, ?rooms] [?city] = [?city, ?rooms]"
    by (simp add: promote_ids_def dict_contains_def lit_def)
  have q2: "map_e quote (map fst (promote_ids [?city, ?rooms] [?city]))
              = Inr [lit ''city'', lit ''%5Brooms%5D'']"
    by (simp add: p2 quote_rooms quote_city)
  have u2: "url_path offline (lit ''sprzedaz'') (lit ''mieszkanie'')
              (promote_ids [?city, ?rooms] [?city]) (city_or_voivodeship [?city])
            = Inr (lit ''https://www.otodom.pl/sprzedaz/mieszkanie/warszawa_1'')"
    by (simp add: p2 url_path_def city_or_voivodeship_def dict_contains_def dict_get_def base)
       (simp add: lit_def)
  have k2: "set REGION_DATA_KEYS \<inter> fst ` set [?city, ?rooms] \<noteq> {}"
    by (simp add: REGION_DATA_KEYS_def)
  from t2 q2 u2 k2 g2 [symmetric] have
    "get_url offline (lit ''sprzedaz'') (lit ''mieszkanie'') [] [] PNone [?city, ?rooms]
       = (Inr (lit ''https://www.otodom.pl/sprzedaz/mieszkanie/warszawa_1'' @ str_join (lit ''&'')
                ([] # page_fragment offline PNone
                   # concat (map2 (expected_fragments offline) [lit ''city'', lit ''%5Brooms%5D'']
                               (map snd (promote_ids [?city, ?rooms] [?city]))))),
          [])"
    by blast
  then have d: "get_url offline (lit ''sprzedaz'') (lit ''mieszkanie'') [] [] PNone
         [?city, ?rooms]
     = (Inr (lit ''https://www.otodom.pl/sprzedaz/mieszkanie/warszawa_1&&searchcity=warszawa_1&search%5Brooms%5D=1&search%5Brooms%5D=2''),
        [])"
    unfolding p2
    by (simp add: page_fragment_def expected_fragments_def str_of_int_def digits.simps
        lit_def)
  from a b c d show ?thesis by blast
qed

text \<open>
  The claim as stated, one fragment for each element of a sequence, fails at the tuple
  \<open>[rooms] = (1, 2)\<close>: line 133 tests for a list, so the tuple is formatted as one value.
\<close>

theorem get_url_tuple_one_fragment:
  "entry_fragments offline (lit ''[rooms]'', PTuple [PInt 1, PInt 2])
     = Inr [lit ''search%5Brooms%5D=(1, 2)'']
   \<and> get_url offline (lit ''sprzedaz'') (lit ''mieszkanie'') [] [] PNone
         [(lit ''[rooms]'', PTuple [PInt 1, PInt 2])]
     = (Inr (lit ''https://www.otodom.pl/sprzedaz/mieszkanie/&&search%5Brooms%5D=(1, 2)''), [])"
  by (simp add: get_url_def REGION_DATA_KEYS_def dict_contains_def get_region_from_filters_def
      get_region_from_autosuggest_def dict_get_def url_for_region_def promote_ids_def
      city_or_voivodeship_def url_path_def page_fragment_def search_fragment_def quote_def
      utf8_encode_cp_def quote_byte_def always_safe_def hex_digit_def str_of_int_def
      digits.simps offline_def run_platform_def lit_def)

text \<open>
  C5. The claim: the building type and the description fragment become path segments, in
  that order, and only the remaining entries of the filters become query fragments. The
  code at the specification's example, a \<open>city\<close> filter and the description fragment
  \<open>"blisko metra"\<close>: the path is \<open>.../warszawa_1/q-blisko-metra\<close> as claimed, and
  the query that follows holds \<open>searchcity=...\<close> and
  \<open>searchdescription_fragment=blisko metra\<close> too, because the loop of lines 132 to 137
  runs over every entry of \<open>filters\<close>: nothing used for the path was removed.
\<close>

theorem get_url_keeps_consumed_filters:
  "get_url E (lit ''sprzedaz'') (lit ''mieszkanie'') region [] PNone
     [(lit ''city'', PStr (lit ''warszawa_1'')),
      (lit ''description_fragment'', PStr (lit ''blisko metra''))]
   = (Inr (BASE_URL E @ lit ''/sprzedaz/mieszkanie/warszawa_1'' @ lit ''/q-blisko-metra''
             @ lit ''&&searchcity=warszawa_1&searchdescription_fragment=blisko metra''),
      [])"
  by (simp add: get_url_def REGION_DATA_KEYS_def dict_contains_def get_region_from_filters_def
     dict_get_def url_for_region_def promote_ids_def city_or_voivodeship_def url_path_def
     page_fragment_def search_fragment_def quote_def utf8_encode_cp_def
     quote_byte_def always_safe_def hex_digit_def str_split_ws_def isspace_def lit_def)

section \<open>get_csrf_token: the matcher and the result\<close>

lemma one_char_mem:
  "st' \<in> set (one_char p st) \<Longrightarrow> \<exists>c. p c \<and> fst st = c # fst st' \<and> snd st' = snd st"
  by (cases st) (auto simp: one_char_def split: list.splits if_splits)

lemma set_group_keys:
  "fst ` set (snd (set_group n s st)) = insert n (fst ` set (snd st))"
  by (force simp: set_group_def)

lemma paths_Lit_mem:
  "st' \<in> set (paths w (Lit t) st)
     \<longleftrightarrow> take (length t) (fst st) = t \<and> st' = (drop (length t) (fst st), snd st)"
  by (auto simp: paths.simps(1))

lemma paths_Seq_mem:
  "st' \<in> set (paths w (Seq a b) st)
     \<longleftrightarrow> (\<exists>mid \<in> set (paths w a st). st' \<in> set (paths w b mid))"
  by (auto simp: paths.simps(5))

lemma paths_Alt_mem:
  "st' \<in> set (paths w (Alt a b) st)
     \<longleftrightarrow> st' \<in> set (paths w a st) \<or> st' \<in> set (paths w b st)"
  by (auto simp: paths.simps(6))

lemma paths_Star_mem:
  "st' \<in> set (paths w (Star r) st)
     \<longleftrightarrow> st' = st \<or> (\<exists>mid \<in> set (paths w r st).
            length (fst mid) < length (fst st) \<and> st' \<in> set (paths w (Star r) mid))"
proof -
  have e: "paths w (Star r) st =
      concat (map (\<lambda>st'. if length (fst st') < length (fst st) then paths w (Star r) st' else [])
                (paths w r st)) @ [st]"
    by (rule paths.simps)
  have "st' \<in> set (paths w (Star r) st) \<longleftrightarrow> st' \<in> set (concat (map (\<lambda>st'. if length (fst st') < length (fst st) then paths w (Star r) st' else [])
                (paths w r st)) @ [st])"
    by (simp only: e)
  also have "\<dots> \<longleftrightarrow> st' = st \<or> (\<exists>mid \<in> set (paths w r st). st' \<in> set (if length (fst mid) < length (fst st) then paths w (Star r) mid else []))"
    by (simp only: set_append set_concat set_map Un_iff UN_iff list.set singleton_iff empty_iff) blast
  also have "\<dots> \<longleftrightarrow> st' = st \<or> (\<exists>mid \<in> set (paths w r st).
            length (fst mid) < length (fst st) \<and> st' \<in> set (paths w (Star r) mid))"
    by (rule arg_cong [where f = "\<lambda>x. st' = st \<or> x"], rule bex_cong [OF refl]) (simp split: if_splits)
  finally show ?thesis .
qed

lemma paths_Plus_mem:
  "st' \<in> set (paths w (Plus r) st)
     \<longleftrightarrow> (\<exists>mid \<in> set (paths w r st). st' \<in> set (paths w (Star r) mid))"
  by (auto simp: paths.simps(8))

lemma paths_Named_mem:
  "st' \<in> set (paths w (Named n r) st)
     \<longleftrightarrow> (\<exists>mid \<in> set (paths w r st). st' = set_group n (fst st) mid)"
  by (auto simp: paths.simps(10))

lemma paths_suffix:
  "st' \<in> set (paths w r st) \<Longrightarrow> \<exists>pre. fst st = pre @ fst st'"
proof (induction w r st arbitrary: st' rule: paths.induct)
  case (1 w t st)
  then have "fst st' = drop (length t) (fst st)"
    by (simp add: paths_Lit_mem)
  then show ?case
    by (metis append_take_drop_id)
next
  case (2 w st)
  then show ?case by (auto simp: paths.simps(2) dest!: one_char_mem)
next
  case (3 w st)
  then show ?case by (auto simp: paths.simps(3) dest!: one_char_mem)
next
  case (4 w st)
  then show ?case by (auto simp: paths.simps(4) dest!: one_char_mem)
next
  case (5 w a b st)
  then obtain mid where m: "mid \<in> set (paths w a st)" and e: "st' \<in> set (paths w b mid)"
    by (auto simp: paths_Seq_mem)
  from "5.IH"(1) [OF m] "5.IH"(2) [OF m e] show ?case by auto
next
  case (6 w a b st)
  from "6.prems" have "st' \<in> set (paths w a st) \<or> st' \<in> set (paths w b st)"
    by (simp add: paths_Alt_mem)
  with "6.IH" show ?case by blast
next
  case (7 w r st)
  show ?case
  proof (cases "st' = st")
    case True
    then show ?thesis by simp
  next
    case False
    with "7.prems" obtain mid where m: "mid \<in> set (paths w r st)"
      and l: "length (fst mid) < length (fst st)" and e: "st' \<in> set (paths w (Star r) mid)"
      by (subst (asm) paths_Star_mem) auto
    from "7.IH"(1) [OF m] "7.IH"(2) [OF m l e] show ?thesis by auto
  qed
next
  case (8 w r st)
  then obtain mid where m: "mid \<in> set (paths w r st)" and e: "st' \<in> set (paths w (Star r) mid)"
    by (auto simp: paths_Plus_mem)
  from "8.IH"(1) [OF m] "8.IH"(2) [OF m e] show ?case by auto
next
  case (9 w r st)
  then show ?case by (simp add: paths.simps(9))
next
  case (10 w n r st)
  then show ?case by (auto simp: paths_Named_mem set_group_def)
qed

lemma paths_keep:
  "st' \<in> set (paths w r st) \<Longrightarrow> fst ` set (snd st) \<subseteq> fst ` set (snd st')"
proof (induction w r st arbitrary: st' rule: paths.induct)
  case (1 w t st)
  then show ?case by (simp add: paths_Lit_mem)
next
  case (2 w st)
  then show ?case by (auto simp: paths.simps(2) dest!: one_char_mem)
next
  case (3 w st)
  then show ?case by (auto simp: paths.simps(3) dest!: one_char_mem)
next
  case (4 w st)
  then show ?case by (auto simp: paths.simps(4) dest!: one_char_mem)
next
  case (5 w a b st)
  then obtain mid where m: "mid \<in> set (paths w a st)" and e: "st' \<in> set (paths w b mid)"
    by (auto simp: paths_Seq_mem)
  from "5.IH"(1) [OF m] "5.IH"(2) [OF m e] show ?case by blast
next
  case (6 w a b st)
  from "6.prems" have "st' \<in> set (paths w a st) \<or> st' \<in> set (paths w b st)"
    by (simp add: paths_Alt_mem)
  with "6.IH" show ?case by blast
next
  case (7 w r st)
  show ?case
  proof (cases "st' = st")
    case True
    then show ?thesis by simp
  next
    case False
    with "7.prems" obtain mid where m: "mid \<in> set (paths w r st)"
      and l: "length (fst mid) < length (fst st)" and e: "st' \<in> set (paths w (Star r) mid)"
      by (subst (asm) paths_Star_mem) auto
    from "7.IH"(1) [OF m] "7.IH"(2) [OF m l e] show ?thesis by blast
  qed
next
  case (8 w r st)
  then obtain mid where m: "mid \<in> set (paths w r st)" and e: "st' \<in> set (paths w (Star r) mid)"
    by (auto simp: paths_Plus_mem)
  from "8.IH"(1) [OF m] "8.IH"(2) [OF m e] show ?case by blast
next
  case (9 w r st)
  then show ?case by (simp add: paths.simps(9))
next
  case (10 w n r st)
  then obtain mid where m: "mid \<in> set (paths w r st)" and e: "st' = set_group n (fst st) mid"
    by (auto simp: paths_Named_mem)
  from "10.IH" [OF m] show ?case unfolding e set_group_keys by blast
qed

lemma paths_Named:
  "st' \<in> set (paths w (Named n r) st) \<Longrightarrow> n \<in> fst ` set (snd st')"
  by (auto simp: paths_Named_mem set_group_def)

lemma paths_SeqE:
  assumes "st' \<in> set (paths w (Seq a b) st)"
  obtains mid where "mid \<in> set (paths w a st)" and "st' \<in> set (paths w b mid)"
  using assms by (auto simp: paths_Seq_mem)

lemma csrf_pattern_paths:
  assumes "st' \<in> set (paths w csrf_pattern st)"
  shows "\<exists>m1 m2 m3 m4 m5 m6 m7.
      m1 \<in> set (paths w (Star AnyChar) st)
    \<and> m2 \<in> set (paths w (Lit (lit ''csrfToken'')) m1)
    \<and> m3 \<in> set (paths w (Plus Space) m2)
    \<and> m4 \<in> set (paths w (Lit (lit ''='')) m3)
    \<and> m5 \<in> set (paths w (Plus (Group (Alt (Lit [0x5C]) Space))) m4)
    \<and> m6 \<in> set (paths w (Lit [0x27]) m5)
    \<and> m7 \<in> set (paths w (Named ''csrf_token'' (Plus Word)) m6)
    \<and> st' \<in> set (paths w (Star AnyChar) m7)"
proof -
  from assms [unfolded csrf_pattern_def] obtain m1 where
    p1: "m1 \<in> set (paths w (Star AnyChar) st)" and r1: "st' \<in> set (paths w
      (Seq (Lit (lit ''csrfToken'')) (Seq (Plus Space) (Seq (Lit (lit ''=''))
      (Seq (Plus (Group (Alt (Lit [0x5C]) Space))) (Seq (Lit [0x27])
      (Seq (Named ''csrf_token'' (Plus Word)) (Star AnyChar))))))) m1)"
    by (rule paths_SeqE)
  from r1 obtain m2 where
    p2: "m2 \<in> set (paths w (Lit (lit ''csrfToken'')) m1)" and r2: "st' \<in> set (paths w
      (Seq (Plus Space) (Seq (Lit (lit ''=''))
      (Seq (Plus (Group (Alt (Lit [0x5C]) Space))) (Seq (Lit [0x27])
      (Seq (Named ''csrf_token'' (Plus Word)) (Star AnyChar)))))) m2)"
    by (rule paths_SeqE)
  from r2 obtain m3 where
    p3: "m3 \<in> set (paths w (Plus Space) m2)" and r3: "st' \<in> set (paths w
      (Seq (Lit (lit ''=''))
      (Seq (Plus (Group (Alt (Lit [0x5C]) Space))) (Seq (Lit [0x27])
      (Seq (Named ''csrf_token'' (Plus Word)) (Star AnyChar))))) m3)"
    by (rule paths_SeqE)
  from r3 obtain m4 where
    p4: "m4 \<in> set (paths w (Lit (lit ''='')) m3)" and r4: "st' \<in> set (paths w
      (Seq (Plus (Group (Alt (Lit [0x5C]) Space))) (Seq (Lit [0x27])
      (Seq (Named ''csrf_token'' (Plus Word)) (Star AnyChar)))) m4)"
    by (rule paths_SeqE)
  from r4 obtain m5 where
    p5: "m5 \<in> set (paths w (Plus (Group (Alt (Lit [0x5C]) Space))) m4)"
    and r5: "st' \<in> set (paths w
      (Seq (Lit [0x27]) (Seq (Named ''csrf_token'' (Plus Word)) (Star AnyChar))) m5)"
    by (rule paths_SeqE)
  from r5 obtain m6 where
    p6: "m6 \<in> set (paths w (Lit [0x27]) m5)"
    and r6: "st' \<in> set (paths w (Seq (Named ''csrf_token'' (Plus Word)) (Star AnyChar)) m6)"
    by (rule paths_SeqE)
  from r6 obtain m7 where
    p7: "m7 \<in> set (paths w (Named ''csrf_token'' (Plus Word)) m6)"
    and r7: "st' \<in> set (paths w (Star AnyChar) m7)"
    by (rule paths_SeqE)
  from p1 p2 p3 p4 p5 p6 p7 r7 show ?thesis by blast
qed

lemma csrf_pattern_sets_group:
  assumes "st' \<in> set (paths w csrf_pattern st)"
  shows "''csrf_token'' \<in> fst ` set (snd st')"
proof -
  from csrf_pattern_paths [OF assms] obtain m6 m7 where
    n: "m7 \<in> set (paths w (Named ''csrf_token'' (Plus Word)) m6)"
    and s: "st' \<in> set (paths w (Star AnyChar) m7)"
    by blast
  from paths_Named [OF n] paths_keep [OF s] show ?thesis by blast
qed

lemma csrf_pattern_needs_quote:
  assumes "st' \<in> set (paths w csrf_pattern st)"
  shows "0x27 \<in> set (fst st)"
proof -
  from csrf_pattern_paths [OF assms] obtain m1 m2 m3 m4 m5 m6 where
    p1: "m1 \<in> set (paths w (Star AnyChar) st)"
    and p2: "m2 \<in> set (paths w (Lit (lit ''csrfToken'')) m1)"
    and p3: "m3 \<in> set (paths w (Plus Space) m2)"
    and p4: "m4 \<in> set (paths w (Lit (lit ''='')) m3)"
    and p5: "m5 \<in> set (paths w (Plus (Group (Alt (Lit [0x5C]) Space))) m4)"
    and p6: "m6 \<in> set (paths w (Lit [0x27]) m5)"
    by blast
  from p6 have "take 1 (fst m5) = [0x27]"
    by (simp add: paths_Lit_mem)
  then have q: "0x27 \<in> set (fst m5)"
    by (cases "fst m5") auto
  from paths_suffix [OF p5] q have "0x27 \<in> set (fst m4)" by auto
  with paths_suffix [OF p4] have "0x27 \<in> set (fst m3)" by auto
  with paths_suffix [OF p3] have "0x27 \<in> set (fst m2)" by auto
  with paths_suffix [OF p2] have "0x27 \<in> set (fst m1)" by auto
  with paths_suffix [OF p1] show ?thesis by auto
qed

text \<open>
  C7, as amended. When the pattern matches the body text, \<open>get_csrf_token\<close> returns the
  group \<open>csrf_token\<close> of the match, a string (\<open>"XYZ123"\<close> for the text
  \<open>csrfToken = 'XYZ123'\<close>). When it does not match, as for every text without a single
  quote, \<open>re.match\<close> returns \<open>None\<close> and the call of \<open>groupdict\<close> on it raises
  AttributeError. \<open>get_csrf_token\<close> never returns \<open>None\<close>.
\<close>

theorem get_csrf_token_result:
  "(re_match (str_isalnum E) csrf_pattern s = None \<longrightarrow> get_csrf_token E s = Inl AttributeError)
   \<and> (\<forall>g. re_match (str_isalnum E) csrf_pattern s = Some g \<longrightarrow>
         (\<exists>t. map_of g ''csrf_token'' = Some t \<and> get_csrf_token E s = Inr (PStr t)))
   \<and> (0x27 \<notin> set s \<longrightarrow> get_csrf_token E s = Inl AttributeError)
   \<and> get_csrf_token E s \<noteq> Inr PNone"
proof -
  have some: "\<exists>t. map_of g ''csrf_token'' = Some t \<and> get_csrf_token E s = Inr (PStr t)"
    if h: "re_match (str_isalnum E) csrf_pattern s = Some g" for g
  proof -
    from h obtain st rest where p: "paths (str_isalnum E) csrf_pattern (s, []) = st # rest"
      and g: "g = snd st"
      by (auto simp: re_match_def split: list.splits)
    then have "st \<in> set (paths (str_isalnum E) csrf_pattern (s, []))" by simp
    from csrf_pattern_sets_group [OF this] g have "map_of g ''csrf_token'' \<noteq> None"
      by (simp add: map_of_eq_None_iff)
    then obtain t where "map_of g ''csrf_token'' = Some t" by blast
    with h show ?thesis by (simp add: get_csrf_token_def)
  qed
  have none: "re_match (str_isalnum E) csrf_pattern s = None" if "0x27 \<notin> set s"
  proof (cases "paths (str_isalnum E) csrf_pattern (s, [])")
    case Nil
    then show ?thesis by (simp add: re_match_def)
  next
    case (Cons st rest)
    then have "st \<in> set (paths (str_isalnum E) csrf_pattern (s, []))" by simp
    from csrf_pattern_needs_quote [OF this] that show ?thesis by simp
  qed
  have raise: "get_csrf_token E s = Inl AttributeError"
    if "re_match (str_isalnum E) csrf_pattern s = None"
    using that by (simp add: get_csrf_token_def)
  have "get_csrf_token E s \<noteq> Inr PNone"
  proof (cases "re_match (str_isalnum E) csrf_pattern s")
    case None
    with raise show ?thesis by simp
  next
    case (Some g)
    with some show ?thesis by fastforce
  qed
  with some none raise show ?thesis by blast
qed


text \<open>
  The theorem at the specification's body text and at a text without a quote.
\<close>

theorem get_csrf_token_result_witness:
  "get_csrf_token offline token_body = Inr (PStr (lit ''XYZ123''))
   \<and> get_csrf_token offline (lit ''csrfToken = none'') = Inl AttributeError"
proof -
  have m: "re_match (str_isalnum offline) csrf_pattern token_body
             = Some [(''csrf_token'', lit ''XYZ123'')]"
    by (simp add: re_match_def csrf_pattern_def token_body_def lit_def offline_def
        run_platform_def one_char_def set_group_def isspace_def ascii_isalnum_def paths.simps)
  from get_csrf_token_result [of offline token_body] m
  have a: "get_csrf_token offline token_body = Inr (PStr (lit ''XYZ123''))"
    by simp
  have "0x27 \<notin> set (lit ''csrfToken = none'')"
    by (simp add: lit_def)
  with get_csrf_token_result [of offline "lit ''csrfToken = none''"]
  have b: "get_csrf_token offline (lit ''csrfToken = none'') = Inl AttributeError"
    by blast
  from a b show ?thesis by blast
qed

text \<open>
  The claim as stated, \<open>None\<close> for a text without a match, fails at \<open><html></html>\<close>.
\<close>

theorem get_csrf_token_no_match_raises:
  "get_csrf_token offline (lit ''<html></html>'') = Inl AttributeError
   \<and> get_csrf_token offline (lit ''<html></html>'') \<noteq> Inr PNone"
  by (simp add: get_csrf_token_def re_match_def csrf_pattern_def lit_def offline_def
      run_platform_def one_char_def set_group_def isspace_def ascii_isalnum_def paths.simps)


end
